theory Spec2Isabelle
  imports Complex_Main "HOL-Library.Word"
begin

section \<open>JavaScript numbers\<close>

text \<open>
  The sources are TypeScript; every number is an IEEE double. The embedding keeps the
  special values the code tests for or can produce (\<open>NaN\<close>, \<open>Infinity\<close>,
  \<open>-Infinity\<close>) as constructors of their own and takes every finite number as a
  real. The operations of the type are exact; the sign of zero is not modelled.
  Comparisons with \<open>NaN\<close> are false, arithmetic on \<open>NaN\<close> gives \<open>NaN\<close>, as in
  the language. Rounding is a step of its own, below.
\<close>

datatype num = Fin real | PInf | NInf | NaN

instantiation num :: "{plus, uminus, minus, times, inverse, ord}"
begin

fun plus_num :: "num \<Rightarrow> num \<Rightarrow> num" where
  "plus_num NaN y = NaN"
| "plus_num x NaN = NaN"
| "plus_num PInf NInf = NaN"
| "plus_num NInf PInf = NaN"
| "plus_num PInf y = PInf"
| "plus_num x PInf = PInf"
| "plus_num NInf y = NInf"
| "plus_num x NInf = NInf"
| "plus_num (Fin a) (Fin b) = Fin (a + b)"

fun uminus_num :: "num \<Rightarrow> num" where
  "uminus_num (Fin a) = Fin (- a)"
| "uminus_num PInf = NInf"
| "uminus_num NInf = PInf"
| "uminus_num NaN = NaN"

definition minus_num :: "num \<Rightarrow> num \<Rightarrow> num" where
  "minus_num x y = x + (- y)"

fun times_num :: "num \<Rightarrow> num \<Rightarrow> num" where
  "times_num NaN y = NaN"
| "times_num x NaN = NaN"
| "times_num (Fin a) (Fin b) = Fin (a * b)"
| "times_num (Fin a) PInf = (if a = 0 then NaN else if 0 < a then PInf else NInf)"
| "times_num (Fin a) NInf = (if a = 0 then NaN else if 0 < a then NInf else PInf)"
| "times_num PInf (Fin b) = (if b = 0 then NaN else if 0 < b then PInf else NInf)"
| "times_num NInf (Fin b) = (if b = 0 then NaN else if 0 < b then NInf else PInf)"
| "times_num PInf PInf = PInf"
| "times_num PInf NInf = NInf"
| "times_num NInf PInf = NInf"
| "times_num NInf NInf = PInf"

fun divide_num :: "num \<Rightarrow> num \<Rightarrow> num" where
  "divide_num NaN y = NaN"
| "divide_num x NaN = NaN"
| "divide_num (Fin a) (Fin b) =
     (if b \<noteq> 0 then Fin (a / b)
      else if a = 0 then NaN else if 0 < a then PInf else NInf)"
| "divide_num (Fin a) PInf = Fin 0"
| "divide_num (Fin a) NInf = Fin 0"
| "divide_num PInf (Fin b) = (if 0 \<le> b then PInf else NInf)"
| "divide_num NInf (Fin b) = (if 0 \<le> b then NInf else PInf)"
| "divide_num x y = NaN"

definition inverse_num :: "num \<Rightarrow> num" where
  "inverse_num x = divide (Fin 1) x"

fun less_eq_num :: "num \<Rightarrow> num \<Rightarrow> bool" where
  "less_eq_num NaN y = False"
| "less_eq_num x NaN = False"
| "less_eq_num (Fin a) (Fin b) = (a \<le> b)"
| "less_eq_num NInf y = True"
| "less_eq_num x PInf = True"
| "less_eq_num x y = False"

fun less_num :: "num \<Rightarrow> num \<Rightarrow> bool" where
  "less_num NaN y = False"
| "less_num x NaN = False"
| "less_num (Fin a) (Fin b) = (a < b)"
| "less_num PInf y = False"
| "less_num x NInf = False"
| "less_num x y = True"

instance ..

end

text \<open>\<open>===\<close> on numbers: \<open>NaN\<close> equals nothing, itself included.\<close>

definition strict_eq :: "num \<Rightarrow> num \<Rightarrow> bool" where
  "strict_eq x y = (x \<noteq> NaN \<and> y \<noteq> NaN \<and> x = y)"

definition Number_isNaN :: "num \<Rightarrow> bool" where
  "Number_isNaN x = (x = NaN)"

fun Number_isFinite :: "num \<Rightarrow> bool" where
  "Number_isFinite (Fin a) = True"
| "Number_isFinite x = False"

text \<open>\<open>Math.max\<close> and \<open>Math.min\<close> of two arguments: \<open>NaN\<close> if either is.\<close>

definition Math_max :: "num \<Rightarrow> num \<Rightarrow> num" where
  "Math_max x y = (if x = NaN \<or> y = NaN then NaN else if x \<le> y then y else x)"

definition Math_min :: "num \<Rightarrow> num \<Rightarrow> num" where
  "Math_min x y = (if x = NaN \<or> y = NaN then NaN else if x \<le> y then x else y)"

fun Math_abs :: "num \<Rightarrow> num" where
  "Math_abs (Fin a) = Fin \<bar>a\<bar>"
| "Math_abs PInf = PInf"
| "Math_abs NInf = PInf"
| "Math_abs NaN = NaN"

fun Math_sqrt :: "num \<Rightarrow> num" where
  "Math_sqrt (Fin a) = (if 0 \<le> a then Fin (sqrt a) else NaN)"
| "Math_sqrt PInf = PInf"
| "Math_sqrt NInf = NaN"
| "Math_sqrt NaN = NaN"

fun Math_floor :: "num \<Rightarrow> num" where
  "Math_floor (Fin a) = Fin (of_int \<lfloor>a\<rfloor>)"
| "Math_floor x = x"

text \<open>\<open>Math.round\<close> rounds a half towards plus infinity, as \<^const>\<open>round\<close> does.\<close>

fun Math_round :: "num \<Rightarrow> num" where
  "Math_round (Fin a) = Fin (of_int (round a))"
| "Math_round x = x"

subsection \<open>Rounding\<close>

text \<open>
  A double operation stores the exact result rounded. Under IEEE 754 what \<open>+\<close>, \<open>-\<close>,
  \<open>*\<close>, \<open>/\<close> and \<open>Math.sqrt\<close> return, and the number a decimal literal stands for,
  depend on the exact value alone: the nearest double, an infinity past the largest
  one. A rounding is that function, from the exact value to what is stored. The bandit
  and the fusion, where one unit in the last place decides a test or an equality, take
  a rounding \<open>rd\<close> as an argument and put every finite result through it; what is
  proved of them for every \<open>rd\<close> holds of the doubles. An infinite or \<open>NaN\<close> result
  is kept as it is. The emotion vectors, the reward and the audio chunks are embedded
  with the exact operations: what is proved of them is up to rounding.
\<close>

type_synonym rounding = "real \<Rightarrow> num"

definition rounded :: "rounding \<Rightarrow> num \<Rightarrow> num" where
  "rounded rd x = (case x of Fin r \<Rightarrow> rd r | _ \<Rightarrow> x)"

definition fadd :: "rounding \<Rightarrow> num \<Rightarrow> num \<Rightarrow> num" where
  "fadd rd x y = rounded rd (x + y)"

definition fsub :: "rounding \<Rightarrow> num \<Rightarrow> num \<Rightarrow> num" where
  "fsub rd x y = rounded rd (x - y)"

definition fmul :: "rounding \<Rightarrow> num \<Rightarrow> num \<Rightarrow> num" where
  "fmul rd x y = rounded rd (x * y)"

definition fdiv :: "rounding \<Rightarrow> num \<Rightarrow> num \<Rightarrow> num" where
  "fdiv rd x y = rounded rd (x / y)"

definition fsqrt :: "rounding \<Rightarrow> num \<Rightarrow> num" where
  "fsqrt rd x = rounded rd (Math_sqrt x)"

text \<open>
  The rounding of the doubles themselves: binary64, to nearest, ties to even. The
  finite doubles are the numbers \<open>m * 2 ^ q\<close> with \<open>m\<close> an integer below \<open>2 ^ 53\<close> in
  absolute value and \<open>q\<close> from -1074 to 971. A real \<open>r\<close> other than zero lies in one
  binade, \<open>2 ^ k \<le> \<bar>r\<bar> < 2 ^ (k + 1)\<close> with \<open>k = \<lfloor>log 2 \<bar>r\<bar>\<rfloor>\<close>, where the doubles are
  \<open>2 ^ (k - 52)\<close> apart (\<open>2 ^ (- 1074)\<close> apart below the smallest normal number); it
  goes to the nearest of them, to the one with the even \<open>m\<close> when it is half way, and
  to an infinity when that is \<open>2 ^ 1024\<close> or more.
\<close>

definition pow2 :: "int \<Rightarrow> real" where
  "pow2 k = (if 0 \<le> k then 2 ^ nat k else 1 / 2 ^ nat (- k))"

definition round_half_even :: "real \<Rightarrow> int" where
  "round_half_even x =
     (let k = \<lfloor>x\<rfloor>
      in if x - of_int k < 1 / 2 then k
         else if 1 / 2 < x - of_int k then k + 1
         else if even k then k else k + 1)"

definition binary64 :: rounding where
  "binary64 r =
     (if r = 0 then Fin 0
      else let q = max (\<lfloor>log 2 \<bar>r\<bar>\<rfloor> - 52) (- 1074);
               v = of_int (round_half_even (\<bar>r\<bar> / pow2 q)) * pow2 q
           in if 2 ^ 1024 \<le> v then (if 0 < r then PInf else NInf)
              else Fin (if 0 < r then v else - v))"

section \<open>Emotion vectors: \<open>lib/ferMapping\<close>\<close>

record FerVector =
  pos :: num
  neu :: num
  fru :: num

definition clamp01 :: "num \<Rightarrow> num" where
  "clamp01 x =
     (if Number_isNaN x \<or> \<not> Number_isFinite x then Fin 0
      else Math_max (Fin 0) (Math_min (Fin 1) x))"

definition normalizeFer :: "FerVector \<Rightarrow> FerVector" where
  "normalizeFer vec =
     (let p = clamp01 (pos vec);
          n = clamp01 (neu vec);
          f = clamp01 (fru vec);
          sum = p + n + f
      in if sum \<le> Fin 0
         then \<lparr>pos = Fin 1 / Fin 3, neu = Fin 1 / Fin 3, fru = Fin 1 / Fin 3\<rparr>
         else \<lparr>pos = p / sum, neu = n / sum, fru = f / sum\<rparr>)"

text \<open>\<open>ema(prev, current, alpha = 0.7)\<close>; the default is the caller's to pass.\<close>

definition ema :: "FerVector \<Rightarrow> FerVector \<Rightarrow> num \<Rightarrow> FerVector" where
  "ema prev current alpha =
     normalizeFer
       \<lparr>pos = alpha * pos prev + (Fin 1 - alpha) * pos current,
        neu = alpha * neu prev + (Fin 1 - alpha) * neu current,
        fru = alpha * fru prev + (Fin 1 - alpha) * fru current\<rparr>"

text \<open>
  The data model's invariant of an emotion vector, in the spec's words: three finite,
  non-negative components that sum to one.
\<close>

definition valid_emotion_vector :: "FerVector \<Rightarrow> bool" where
  "valid_emotion_vector v =
     (case (pos v, neu v, fru v) of
        (Fin p, Fin n, Fin f) \<Rightarrow> 0 \<le> p \<and> 0 \<le> n \<and> 0 \<le> f \<and> p + n + f = 1
      | _ \<Rightarrow> False)"

section \<open>Reward: \<open>store/reward\<close> and \<open>lib/reward\<close>\<close>

datatype RewardPreset = baseline | aggressive | conservative | custom

record RewardWeights =
  alpha :: num
  beta :: num
  gamma :: num

text \<open>The store's state: the current weights and the current preset.\<close>

record RewardWeightsState = RewardWeights +
  preset :: RewardPreset

text \<open>\<open>PRESETS\<close> has no entry for \<open>custom\<close>.\<close>

fun PRESETS :: "RewardPreset \<Rightarrow> RewardWeights option" where
  "PRESETS baseline = Some \<lparr>alpha = Fin 1, beta = Fin (3 / 10), gamma = Fin (5 / 10)\<rparr>"
| "PRESETS aggressive = Some \<lparr>alpha = Fin 1, beta = Fin (5 / 10), gamma = Fin (7 / 10)\<rparr>"
| "PRESETS conservative = Some \<lparr>alpha = Fin 1, beta = Fin (2 / 10), gamma = Fin (3 / 10)\<rparr>"
| "PRESETS custom = None"

definition useRewardWeightsStore_initial :: RewardWeightsState where
  "useRewardWeightsStore_initial =
     \<lparr>alpha = alpha (the (PRESETS baseline)), beta = beta (the (PRESETS baseline)),
      gamma = gamma (the (PRESETS baseline)), preset = baseline\<rparr>"

definition setWeights :: "RewardWeightsState \<Rightarrow> RewardWeights \<Rightarrow> RewardWeightsState" where
  "setWeights st weights =
     \<lparr>alpha = alpha weights, beta = beta weights, gamma = gamma weights, preset = custom\<rparr>"

definition setPreset :: "RewardWeightsState \<Rightarrow> RewardPreset \<Rightarrow> RewardWeightsState" where
  "setPreset st p =
     (case PRESETS p of
        None \<Rightarrow> st\<lparr>preset := p\<rparr>
      | Some weights \<Rightarrow>
          \<lparr>alpha = alpha weights, beta = beta weights, gamma = gamma weights, preset = p\<rparr>)"

definition resetToBaseline :: "RewardWeightsState \<Rightarrow> RewardWeightsState" where
  "resetToBaseline st =
     \<lparr>alpha = alpha (the (PRESETS baseline)), beta = beta (the (PRESETS baseline)),
      gamma = gamma (the (PRESETS baseline)), preset = baseline\<rparr>"

text \<open>
  \<open>lib/reward\<close> has a \<open>clamp01\<close> of its own, without the test for \<open>NaN\<close> and
  infinities that the one of \<open>lib/ferMapping\<close> makes.
\<close>

definition reward_clamp01 :: "num \<Rightarrow> num" where
  "reward_clamp01 x = Math_max (Fin 0) (Math_min (Fin 1) x)"

definition clampNeg1to1 :: "num \<Rightarrow> num" where
  "clampNeg1to1 x = Math_max (Fin (- 1)) (Math_min (Fin 1) x)"

text \<open>\<open>computeReward\<close> reads the weights from the store: the store's state is an argument.\<close>

definition computeReward :: "RewardWeightsState \<Rightarrow> num \<Rightarrow> num \<Rightarrow> num \<Rightarrow> num" where
  "computeReward st correct engagement deltaM =
     (let e = clampNeg1to1 engagement;
          d = reward_clamp01 deltaM
      in alpha st * correct + beta st * e + gamma st * d)"

definition computeMasteryGain :: "num \<Rightarrow> num \<Rightarrow> num" where
  "computeMasteryGain prevMastery currentMastery = reward_clamp01 (currentMastery - prevMastery)"

section \<open>The bandit: class \<open>LinUCB\<close> of \<open>lib/policy/__tests__/linucb.selfcheck\<close>\<close>

text \<open>What the code throws.\<close>

datatype js_error = Error string | TypeError | RangeError

text \<open>
  Reading \<open>xs[i]\<close> in arithmetic: past the end the element is \<open>undefined\<close>, which
  arithmetic takes as \<open>NaN\<close>.
\<close>

definition elem :: "num list \<Rightarrow> nat \<Rightarrow> num" where
  "elem xs i = (if i < length xs then xs ! i else NaN)"

record LinUCBContext =
  A :: "num list list"
  b :: "num list"
  alpha :: num

text \<open>
  The dimension \<open>d\<close> is a length (\<open>Array(this.d)\<close>): a natural number. The map from
  arm ids to contexts is a partial function.
\<close>

record LinUCB =
  contexts :: "string \<rightharpoonup> LinUCBContext"
  d :: nat
  alpha :: num

definition LinUCB_new :: "nat \<Rightarrow> num \<Rightarrow> LinUCB" where
  "LinUCB_new n a = \<lparr>contexts = Map.empty, d = n, alpha = a\<rparr>"

text \<open>The methods mutate \<open>this\<close>: each returns the instance it leaves behind.\<close>

definition getOrCreateContext :: "LinUCB \<Rightarrow> string \<Rightarrow> LinUCB \<times> LinUCBContext" where
  "getOrCreateContext this armId =
     (case contexts this armId of
        None \<Rightarrow>
          (let A0 = replicate (d this) (replicate (d this) (Fin 0));
               b0 = replicate (d this) (Fin 0);
               context = \<lparr>A = A0, b = b0, alpha = LinUCB.alpha this\<rparr>
           in (this\<lparr>contexts := (contexts this)(armId \<mapsto> context)\<rparr>, context))
      | Some context \<Rightarrow> (this, context))"

text \<open>
  The arithmetic of the methods below is rounded by \<open>rd\<close>.
  \<open>a.reduce((sum, val, i) => sum + val * b[i], 0)\<close>:
\<close>

definition dotProduct :: "rounding \<Rightarrow> num list \<Rightarrow> num list \<Rightarrow> num" where
  "dotProduct rd u v =
     foldl (\<lambda>sum (i, val). fadd rd sum (fmul rd val (elem v i))) (Fin 0) (enumerate 0 u)"

definition matrixVectorMultiply :: "rounding \<Rightarrow> num list list \<Rightarrow> num list \<Rightarrow> num list" where
  "matrixVectorMultiply rd matrix vector = map (\<lambda>row. dotProduct rd row vector) matrix"

definition quadraticForm :: "rounding \<Rightarrow> num list list \<Rightarrow> num list \<Rightarrow> num" where
  "quadraticForm rd matrix vector =
     (let mv = matrixVectorMultiply rd matrix vector in dotProduct rd vector mv)"

text \<open>
  \<open>inverse\<close> throws unless \<open>d\<close> is 2. The pattern \<open>[[a, b], [c, d]] = matrix\<close> throws a
  \<open>TypeError\<close> when a row is missing and binds \<open>undefined\<close> where a row is short. The
  tolerance is the double that the literal \<open>1e-10\<close> stands for.
\<close>

definition inverse2 :: "rounding \<Rightarrow> LinUCB \<Rightarrow> num list list \<Rightarrow> js_error + num list list" where
  "inverse2 rd this matrix =
     (if d this \<noteq> 2 then Inl (Error ''Only 2D supported for self-check'')
      else case matrix of
        r0 # r1 # _ \<Rightarrow>
          (let a' = elem r0 0; b' = elem r0 1; c' = elem r1 0; d' = elem r1 1;
               det = fsub rd (fmul rd a' d') (fmul rd b' c')
           in if Math_abs det < rd (1 / 10 ^ 10)
              then Inr [[Fin 1, Fin 0], [Fin 0, Fin 1]]
              else Inr [[fdiv rd d' det, fdiv rd (- b') det],
                        [fdiv rd (- c') det, fdiv rd a' det]])
      | _ \<Rightarrow> Inl TypeError)"

definition selectArm ::
  "rounding \<Rightarrow> LinUCB \<Rightarrow> num list \<Rightarrow> string \<Rightarrow> LinUCB \<times> (js_error + num)" where
  "selectArm rd this features armId =
     (let (this', context) = getOrCreateContext this armId
      in (this',
          case inverse2 rd this' (A context) of
            Inl e \<Rightarrow> Inl e
          | Inr AInv \<Rightarrow>
              (let theta = matrixVectorMultiply rd AInv (b context);
                   p = dotProduct rd theta features;
                   confidence = fmul rd (LinUCB.alpha this')
                                  (fsqrt rd (quadraticForm rd AInv features))
               in Inr (fadd rd p confidence))))"

text \<open>
  \<open>update\<close>: the two nested loops over \<open>i, j < d\<close> add \<open>features[i] * features[j]\<close> to
  \<open>A[i][j]\<close> and \<open>features[i] * reward\<close> to \<open>b[i]\<close>; every context is \<open>d\<close> by \<open>d\<close>.
\<close>

definition update :: "rounding \<Rightarrow> LinUCB \<Rightarrow> num list \<Rightarrow> num \<Rightarrow> string \<Rightarrow> LinUCB" where
  "update rd this features reward armId =
     (let (this', context) = getOrCreateContext this armId;
          A' = map (\<lambda>i. map (\<lambda>j. fadd rd (A context ! i ! j)
                                       (fmul rd (elem features i) (elem features j)))
                       [0..<d this']) [0..<d this'];
          b' = map (\<lambda>i. fadd rd (b context ! i) (fmul rd (elem features i) reward))
                 [0..<d this']
      in this'\<lparr>contexts := (contexts this')(armId \<mapsto> context\<lparr>A := A', b := b'\<rparr>)\<rparr>)"

text \<open>
  The spec's words for the initial matrix: the identity times a scale, here a scale
  other than zero. The scale of such a matrix is its first entry.
\<close>

definition scaled_identity :: "nat \<Rightarrow> num \<Rightarrow> num list list" where
  "scaled_identity n c = map (\<lambda>i. map (\<lambda>j. if i = j then c else Fin 0) [0..<n]) [0..<n]"

definition nonzero_scaled_identity :: "nat \<Rightarrow> num list list \<Rightarrow> bool" where
  "nonzero_scaled_identity n M =
     (case M of (c # _) # _ \<Rightarrow> c \<noteq> Fin 0 \<and> M = scaled_identity n c | _ \<Rightarrow> False)"

section \<open>Audio chunks: class \<open>MicStreamer\<close> of \<open>lib/audioCapture\<close>\<close>

record ChunkSignature =
  rms :: num
  peak :: num
  mean :: num

text \<open>
  \<open>MicChunkMeta\<close> without and with its two flags (\<open>buildMeta\<close> returns the first, the
  callback receives the second). Counts of samples and bytes are natural numbers.
\<close>

record MicChunkMetaBase = ChunkSignature +
  seq :: nat
  sampleCount :: nat
  durationSec :: num
  approxBytes :: nat
  timestamp :: num

record MicChunkMeta = MicChunkMetaBase +
  duplicate :: bool
  sent :: bool

text \<open>
  The fields of the class that the processing of a window reads or writes. The
  metadata callback is optional: \<open>onChunkMeta_set\<close> says whether one is registered.
\<close>

record MicStreamer =
  actualSr :: num
  chunkSeq :: nat
  lastSignature :: "ChunkSignature option"
  consecutiveDuplicates :: nat
  duplicateThreshold :: num
  onChunkMeta_set :: bool

definition targetSr :: nat where
  "targetSr = 16000"

definition maxConsecutiveDuplicates :: nat where
  "maxConsecutiveDuplicates = 5"

subsection \<open>The WAV encoder\<close>

text \<open>
  A byte of an \<open>ArrayBuffer\<close>: an unsigned byte, or byte \<open>k\<close> of the IEEE single
  precision encoding of a sample, which stays symbolic.
\<close>

datatype byte = U8 "8 word" | F32 num nat

text \<open>Statements run in order; the first one that throws ends the run.\<close>

fun sequence :: "('s \<Rightarrow> js_error + 's) list \<Rightarrow> 's \<Rightarrow> js_error + 's" where
  "sequence [] s = Inr s"
| "sequence (w # ws) s = (case w s of Inl e \<Rightarrow> Inl e | Inr s' \<Rightarrow> sequence ws s')"

text \<open>
  A \<open>DataView\<close> writes bytes in place and throws a \<open>RangeError\<close> when they do not fit.
  All multi-byte writes of the encoder are little-endian.
\<close>

definition poke :: "nat \<Rightarrow> byte list \<Rightarrow> byte list \<Rightarrow> js_error + byte list" where
  "poke offset bs view =
     (if offset + length bs \<le> length view
      then Inr (take offset view @ bs @ drop (offset + length bs) view)
      else Inl RangeError)"

definition le_bytes :: "nat \<Rightarrow> nat \<Rightarrow> byte list" where
  "le_bytes k v = map (\<lambda>i. U8 (of_nat (v div 256 ^ i mod 256))) [0..<k]"

definition setUint8 :: "nat \<Rightarrow> nat \<Rightarrow> byte list \<Rightarrow> js_error + byte list" where
  "setUint8 offset v = poke offset (le_bytes 1 v)"

definition setUint16 :: "nat \<Rightarrow> nat \<Rightarrow> byte list \<Rightarrow> js_error + byte list" where
  "setUint16 offset v = poke offset (le_bytes 2 v)"

definition setUint32 :: "nat \<Rightarrow> nat \<Rightarrow> byte list \<Rightarrow> js_error + byte list" where
  "setUint32 offset v = poke offset (le_bytes 4 v)"

definition setFloat32 :: "nat \<Rightarrow> num \<Rightarrow> byte list \<Rightarrow> js_error + byte list" where
  "setFloat32 offset x = poke offset [F32 x 0, F32 x 1, F32 x 2, F32 x 3]"

definition writeString :: "nat \<Rightarrow> string \<Rightarrow> byte list \<Rightarrow> js_error + byte list" where
  "writeString offset s =
     sequence (map (\<lambda>(i, c). setUint8 (offset + i) (of_char c)) (enumerate 0 s))"

definition encodeWavFloat32Mono :: "num list \<Rightarrow> nat \<Rightarrow> js_error + byte list" where
  "encodeWavFloat32Mono samples sampleRate =
     (let numFrames = length samples;
          buffer = replicate (44 + numFrames * 4) (U8 0)
      in sequence
           ([writeString 0 ''RIFF'',
             setUint32 4 (36 + numFrames * 4),
             writeString 8 ''WAVE'',
             writeString 12 ''fmt '',
             setUint32 16 16,
             setUint16 20 3,
             setUint16 22 1,
             setUint32 24 sampleRate,
             setUint32 28 (sampleRate * 4),
             setUint16 32 4,
             setUint16 34 32,
             writeString 36 ''data'',
             setUint32 40 (numFrames * 4)]
            @ map (\<lambda>(i, x). setFloat32 (44 + 4 * i) x) (enumerate 0 samples))
           buffer)"

subsection \<open>Resampling\<close>

text \<open>
  The length of \<open>new Float32Array(n)\<close>: \<open>NaN\<close> counts as 0, a negative or infinite
  \<open>n\<close> throws a \<open>RangeError\<close> (\<open>n\<close> is always the result of \<open>Math.round\<close> here).
\<close>

fun Float32Array_length :: "num \<Rightarrow> js_error + nat" where
  "Float32Array_length (Fin r) = (if r \<le> - 1 then Inl RangeError else Inr (nat \<lfloor>r\<rfloor>))"
| "Float32Array_length NaN = Inr 0"
| "Float32Array_length x = Inl RangeError"

text \<open>
  \<open>input[k]\<close> for a number \<open>k\<close>: the element when \<open>k\<close> is an index of the array,
  \<open>undefined\<close> otherwise, which arithmetic takes as \<open>NaN\<close>.
\<close>

fun sample_at :: "num list \<Rightarrow> num \<Rightarrow> num" where
  "sample_at xs (Fin r) =
     (if r = of_int \<lfloor>r\<rfloor> \<and> 0 \<le> r \<and> r < real (length xs) then xs ! nat \<lfloor>r\<rfloor> else NaN)"
| "sample_at xs k = NaN"

definition resample :: "num list \<Rightarrow> num \<Rightarrow> num \<Rightarrow> js_error + num list" where
  "resample input fromSr toSr =
     (if strict_eq fromSr toSr then Inr input
      else
        let ratio = toSr / fromSr;
            outputLength = Math_round (Fin (real (length input)) * ratio)
        in case Float32Array_length outputLength of
             Inl e \<Rightarrow> Inl e
           | Inr n \<Rightarrow>
               Inr (map (\<lambda>i.
                      let srcIndex = Fin (real i) / ratio;
                          srcIndexFloor = Math_floor srcIndex;
                          srcIndexCeil = Math_min (srcIndexFloor + Fin 1)
                                           (Fin (real (length input)) - Fin 1);
                          t = srcIndex - srcIndexFloor
                      in sample_at input srcIndexFloor * (Fin 1 - t)
                         + sample_at input srcIndexCeil * t)
                    [0..<n]))"

subsection \<open>Signatures and duplicates\<close>

fun signature_loop :: "num list \<Rightarrow> num \<times> num \<times> num \<Rightarrow> num \<times> num \<times> num" where
  "signature_loop [] acc = acc"
| "signature_loop (v # rest) (sumSquares, pk, sm) =
     signature_loop rest
       (sumSquares + v * v,
        (let mag = Math_abs v in if pk < mag then mag else pk),
        sm + v)"

definition computeSignature :: "num list \<Rightarrow> ChunkSignature" where
  "computeSignature samples =
     (let (sumSquares, pk, sm) = signature_loop samples (Fin 0, Fin 0, Fin 0)
      in \<lparr>rms = Math_sqrt (sumSquares / Fin (real (length samples))),
          peak = pk,
          mean = sm / Fin (real (length samples))\<rparr>)"

definition buildMeta :: "nat \<Rightarrow> nat \<Rightarrow> ChunkSignature \<Rightarrow> num \<Rightarrow> MicChunkMetaBase" where
  "buildMeta sq count signature now =
     \<lparr>rms = rms signature, peak = peak signature, mean = mean signature,
      seq = sq, sampleCount = count,
      durationSec = Fin (real count) / Fin (real targetSr),
      approxBytes = 44 + count * 4,
      timestamp = now\<rparr>"

text \<open>\<open>{ ...metaBase, duplicate, sent }\<close>\<close>

definition with_flags :: "MicChunkMetaBase \<Rightarrow> bool \<Rightarrow> bool \<Rightarrow> MicChunkMeta" where
  "with_flags metaBase dup snt =
     \<lparr>rms = rms metaBase, peak = peak metaBase, mean = mean metaBase,
      seq = seq metaBase, sampleCount = sampleCount metaBase,
      durationSec = durationSec metaBase, approxBytes = approxBytes metaBase,
      timestamp = timestamp metaBase, duplicate = dup, sent = snt\<rparr>"

definition isDuplicate :: "MicStreamer \<Rightarrow> ChunkSignature \<Rightarrow> bool" where
  "isDuplicate this signature =
     (case lastSignature this of
        None \<Rightarrow> False
      | Some prev \<Rightarrow>
          (let isQuiet = (rms signature < Fin (1 / 100) \<and> rms prev < Fin (1 / 100));
               threshold = (if isQuiet then duplicateThreshold this * Fin 10
                            else duplicateThreshold this);
               diffRms = Math_abs (rms signature - rms prev);
               diffPeak = Math_abs (peak signature - peak prev);
               diffMean = Math_abs (mean signature - mean prev)
           in diffRms \<le> threshold \<and> diffPeak \<le> threshold \<and> diffMean \<le> threshold
              \<and> \<not> isQuiet))"

subsection \<open>One window\<close>

text \<open>The test for a completely silent window.\<close>

definition isSilent :: "ChunkSignature \<Rightarrow> bool" where
  "isSilent signature = (strict_eq (rms signature) (Fin 0) \<and> strict_eq (peak signature) (Fin 0)
      \<and> strict_eq (mean signature) (Fin 0))"

text \<open>The calls of the two callbacks, in order.\<close>

datatype callback = OnChunkMeta MicChunkMeta | OnChunk "byte list"

definition call_onChunkMeta :: "MicStreamer \<Rightarrow> MicChunkMeta \<Rightarrow> callback list" where
  "call_onChunkMeta this meta = (if onChunkMeta_set this then [OnChunkMeta meta] else [])"

text \<open>
  The body of the loop of \<open>onaudioprocess\<close> from \<open>computeSignature\<close> on, for the window
  \<open>chunk\<close> at time \<open>now\<close>: the instance it leaves, the callbacks it calls, and the
  error it throws, if any.
\<close>

definition process_chunk ::
  "MicStreamer \<Rightarrow> num list \<Rightarrow> num \<Rightarrow> MicStreamer \<times> callback list \<times> js_error option" where
  "process_chunk this0 chunk now =
     (let signature = computeSignature chunk;
          sq = chunkSeq this0 + 1;
          this = this0\<lparr>chunkSeq := sq\<rparr>;
          metaBase = buildMeta sq (length chunk) signature now;
          silent = isSilent signature
      in if silent
         then (this\<lparr>lastSignature := Some signature\<rparr>,
               call_onChunkMeta this (with_flags metaBase True False), None)
         else
           let isDup = isDuplicate this signature;
               forceSend = (maxConsecutiveDuplicates \<le> consecutiveDuplicates this)
           in if isDup \<and> \<not> forceSend
              then (this\<lparr>consecutiveDuplicates := consecutiveDuplicates this + 1,
                          lastSignature := Some signature\<rparr>,
                    call_onChunkMeta this (with_flags metaBase True False), None)
              else
                let this' = this\<lparr>consecutiveDuplicates := 0, lastSignature := Some signature\<rparr>
                in case encodeWavFloat32Mono chunk targetSr of
                     Inl e \<Rightarrow> (this', [], Some e)
                   | Inr wav \<Rightarrow>
                       (this',
                        call_onChunkMeta this (with_flags metaBase (isDup \<and> forceSend) True)
                          @ [OnChunk wav],
                        None))"

text \<open>
  The body of the loop for the window \<open>rawChunk\<close> that \<open>flush\<close> returned: resampled
  when the rate of the audio context is not the target rate.
\<close>

definition onaudioprocess_window ::
  "MicStreamer \<Rightarrow> num list \<Rightarrow> num \<Rightarrow> MicStreamer \<times> callback list \<times> js_error option" where
  "onaudioprocess_window this rawChunk now =
     (case (if \<not> strict_eq (actualSr this) (Fin (real targetSr))
            then resample rawChunk (actualSr this) (Fin (real targetSr))
            else Inr rawChunk) of
        Inl e \<Rightarrow> (this, [], Some e)
      | Inr chunk \<Rightarrow> process_chunk this chunk now)"

text \<open>
  Successive windows, each with its time: the loop runs the body once per window, and a
  throw ends the handler.
\<close>

fun process_chunks :: "MicStreamer \<Rightarrow> (num list \<times> num) list \<Rightarrow> MicStreamer \<times> callback list" where
  "process_chunks this [] = (this, [])"
| "process_chunks this ((chunk, now) # rest) =
     (case process_chunk this chunk now of
        (this', calls, None) \<Rightarrow>
          (let (this'', calls') = process_chunks this' rest in (this'', calls @ calls'))
      | (this', calls, Some e) \<Rightarrow> (this', calls))"

section \<open>Fusion: \<open>lib/fusion\<close> and the hook \<open>useVoiceEmotion\<close>\<close>









section \<open>Invariants\<close>

text \<open>
  A write fits a buffer of \<open>L\<close> bytes when it does not throw on one and leaves one.
\<close>

definition fits :: "nat \<Rightarrow> (byte list \<Rightarrow> js_error + byte list) \<Rightarrow> bool" where
  "fits L w = (\<forall>view. length view = L \<longrightarrow> (\<exists>view'. w view = Inr view' \<and> length view' = L))"

section \<open>Properties of the emotion vectors\<close>

lemma clamp01_Fin: "clamp01 (Fin a) = Fin (max 0 (min 1 a))"
  by (simp add: clamp01_def Number_isNaN_def Math_max_def Math_min_def max_def min_def)

lemma clamp01_special: "clamp01 NaN = Fin 0" "clamp01 PInf = Fin 0" "clamp01 NInf = Fin 0"
  by (simp_all add: clamp01_def Number_isNaN_def)

lemma clamp01_range: "\<exists>r. clamp01 x = Fin r \<and> 0 \<le> r \<and> r \<le> 1"
  by (cases x) (simp_all add: clamp01_Fin clamp01_special)

lemma normalizeFer_Fin:
  assumes "clamp01 (pos v) = Fin p" "clamp01 (neu v) = Fin n" "clamp01 (fru v) = Fin f"
  shows "normalizeFer v =
     (if p + n + f \<le> 0 then \<lparr>pos = Fin (1 / 3), neu = Fin (1 / 3), fru = Fin (1 / 3)\<rparr>
      else \<lparr>pos = Fin (p / (p + n + f)), neu = Fin (n / (p + n + f)),
             fru = Fin (f / (p + n + f))\<rparr>)"
  using assms by (simp add: normalizeFer_def Let_def)

lemma normalized_exI:
  assumes "w = \<lparr>pos = Fin p, neu = Fin n, fru = Fin f\<rparr>"
    and "0 \<le> p" "0 \<le> n" "0 \<le> f" "p + n + f = 1"
  shows "\<exists>p n f. w = \<lparr>pos = Fin p, neu = Fin n, fru = Fin f\<rparr>
        \<and> 0 \<le> p \<and> 0 \<le> n \<and> 0 \<le> f \<and> \<bar>p + n + f - 1\<bar> \<le> 1 / 10 ^ 9"
  using assms by (intro exI [of _ p] exI [of _ n] exI [of _ f]) simp

text \<open>
  C2. \<open>normalizeFer\<close> returns, for every input (components \<open>NaN\<close> or infinite included,
  which \<open>clamp01\<close> takes to 0), a vector of three finite non-negative numbers whose sum
  is 1 within \<open>1e-9\<close> (in exact arithmetic: is 1); and whenever the sum of the clamped
  components is at most 0 it returns exactly the uniform vector of thirds.
\<close>

theorem normalizeFer_normalized:
  "(\<exists>p n f. normalizeFer v = \<lparr>pos = Fin p, neu = Fin n, fru = Fin f\<rparr>
        \<and> 0 \<le> p \<and> 0 \<le> n \<and> 0 \<le> f \<and> \<bar>p + n + f - 1\<bar> \<le> 1 / 10 ^ 9)
   \<and> (clamp01 (pos v) + clamp01 (neu v) + clamp01 (fru v) \<le> Fin 0
        \<longrightarrow> normalizeFer v = \<lparr>pos = Fin (1 / 3), neu = Fin (1 / 3), fru = Fin (1 / 3)\<rparr>)
   \<and> clamp01 NaN = Fin 0 \<and> clamp01 PInf = Fin 0 \<and> clamp01 NInf = Fin 0
   \<and> (\<forall>a. clamp01 (Fin a) = Fin (max 0 (min 1 a)))"
proof -
  obtain p where p: "clamp01 (pos v) = Fin p" "0 \<le> p" using clamp01_range by blast
  obtain n where n: "clamp01 (neu v) = Fin n" "0 \<le> n" using clamp01_range by blast
  obtain f where f: "clamp01 (fru v) = Fin f" "0 \<le> f" using clamp01_range by blast
  note nf = normalizeFer_Fin [OF p(1) n(1) f(1)]
  have first: "\<exists>p n f. normalizeFer v = \<lparr>pos = Fin p, neu = Fin n, fru = Fin f\<rparr>
        \<and> 0 \<le> p \<and> 0 \<le> n \<and> 0 \<le> f \<and> \<bar>p + n + f - 1\<bar> \<le> 1 / 10 ^ 9"
  proof (cases "p + n + f \<le> 0")
    case True
    then have "normalizeFer v = \<lparr>pos = Fin (1 / 3), neu = Fin (1 / 3), fru = Fin (1 / 3)\<rparr>"
      using nf by simp
    then show ?thesis by (rule normalized_exI) simp_all
  next
    case False
    let ?s = "p + n + f"
    have s: "0 < ?s" using False by simp
    have eq: "normalizeFer v = \<lparr>pos = Fin (p / ?s), neu = Fin (n / ?s), fru = Fin (f / ?s)\<rparr>"
      using nf False by simp
    have "p / ?s + n / ?s + f / ?s = 1"
      using s by (simp add: add_divide_distrib [symmetric])
    moreover have "0 \<le> p / ?s" "0 \<le> n / ?s" "0 \<le> f / ?s"
      using s p(2) n(2) f(2) by simp_all
    ultimately show ?thesis using eq by (intro normalized_exI [OF eq]) simp_all
  qed
  have second: "clamp01 (pos v) + clamp01 (neu v) + clamp01 (fru v) \<le> Fin 0
        \<longrightarrow> normalizeFer v = \<lparr>pos = Fin (1 / 3), neu = Fin (1 / 3), fru = Fin (1 / 3)\<rparr>"
    using nf by (simp add: p(1) n(1) f(1))
  show ?thesis
    using first second by (simp add: clamp01_special clamp01_Fin)
qed

theorem normalizeFer_normalized_witness:
  "normalizeFer \<lparr>pos = NaN, neu = PInf, fru = Fin (- 2)\<rparr>
     = \<lparr>pos = Fin (1 / 3), neu = Fin (1 / 3), fru = Fin (1 / 3)\<rparr>"
  using normalizeFer_normalized [of "\<lparr>pos = NaN, neu = PInf, fru = Fin (- 2)\<rparr>"]
  by (simp add: clamp01_special clamp01_Fin)

lemma valid_emotion_vectorE:
  assumes "valid_emotion_vector v"
  obtains p n f where "v = \<lparr>pos = Fin p, neu = Fin n, fru = Fin f\<rparr>"
    and "0 \<le> p" "0 \<le> n" "0 \<le> f" "p + n + f = 1"
proof (cases v)
  case (fields x y z)
  with assms show ?thesis
    by (cases x; cases y; cases z) (auto simp: valid_emotion_vector_def intro: that)
qed

lemma convex_same: "a * p + (1 - a) * p = (p::real)"
  by (simp add: algebra_simps)

text \<open>
  C3. A valid emotion vector (finite, non-negative, summing to one) is a fixed point
  of the smoothing step for every weight \<open>alpha\<close> in [0, 1]: \<open>ema(v, v, alpha)\<close> is
  \<open>v\<close> (in exact arithmetic the two are equal, not only close).
\<close>

theorem ema_fixed_point:
  assumes "valid_emotion_vector v" and "Fin 0 \<le> w" and "w \<le> Fin 1"
  shows "ema v v w = v"
proof -
  obtain p n f where v: "v = \<lparr>pos = Fin p, neu = Fin n, fru = Fin f\<rparr>"
    and nonneg: "0 \<le> p" "0 \<le> n" "0 \<le> f" and s: "p + n + f = 1"
    using assms(1) by (rule valid_emotion_vectorE)
  obtain a where a: "w = Fin a"
    using assms(2) assms(3) by (cases w) simp_all
  have le: "p \<le> 1" "n \<le> 1" "f \<le> 1"
    using nonneg s by linarith+
  have blend: "ema v v w = normalizeFer v"
    by (simp add: ema_def v a minus_num_def convex_same)
  have "normalizeFer v = v"
    using normalizeFer_Fin [of v p n f] nonneg le s
    by (simp add: v clamp01_Fin max_def min_def)
  with blend show ?thesis by simp
qed

theorem ema_fixed_point_witness:
  "ema \<lparr>pos = Fin (1 / 2), neu = Fin (1 / 4), fru = Fin (1 / 4)\<rparr>
       \<lparr>pos = Fin (1 / 2), neu = Fin (1 / 4), fru = Fin (1 / 4)\<rparr> (Fin (7 / 10))
     = \<lparr>pos = Fin (1 / 2), neu = Fin (1 / 4), fru = Fin (1 / 4)\<rparr>"
  using ema_fixed_point [of "\<lparr>pos = Fin (1 / 2), neu = Fin (1 / 4), fru = Fin (1 / 4)\<rparr>"
      "Fin (7 / 10)"]
  by (simp add: valid_emotion_vector_def)

section \<open>Properties of the reward\<close>

lemma reward_clamp01_Fin: "reward_clamp01 (Fin x) = Fin (max 0 (min 1 x))"
  by (simp add: reward_clamp01_def Math_max_def Math_min_def max_def min_def)

lemma clampNeg1to1_Fin: "clampNeg1to1 (Fin x) = Fin (max (- 1) (min 1 x))"
  by (simp add: clampNeg1to1_def Math_max_def Math_min_def max_def min_def)

lemma reward_clamp01_cases:
  "reward_clamp01 m = NaN \<or> (\<exists>r. reward_clamp01 m = Fin r \<and> 0 \<le> r \<and> r \<le> 1)"
  by (cases m) (simp_all add: reward_clamp01_def Math_max_def Math_min_def)

lemma reward_clamp01_not_negative: "\<not> reward_clamp01 m < Fin 0"
  using reward_clamp01_cases [of m] by auto

lemma gamma_term_not_negative:
  assumes "Fin 0 \<le> g"
  shows "\<not> g * reward_clamp01 m < Fin 0"
proof -
  consider "reward_clamp01 m = NaN" | r where "reward_clamp01 m = Fin r" "0 \<le> r"
    using reward_clamp01_cases [of m] by auto
  then show ?thesis
  proof cases
    case 1
    then show ?thesis by (cases g) simp_all
  next
    case 2
    with assms show ?thesis by (cases g) (simp_all add: mult_less_0_iff)
  qed
qed

text \<open>
  C4. The reward is \<open>alpha * correct + beta * clamp(engagement, -1, 1) +
  gamma * clamp(deltaM, 0, 1)\<close>: for finite weights and inputs the clamps are the real
  \<open>max\<close> and \<open>min\<close>; for any input the code's own clamps (a \<open>NaN\<close> input stays
  \<open>NaN\<close>). With the baseline preset, the store's initial state,
  \<open>computeReward(1, 0, 0) = 1.0\<close> and \<open>computeReward(0, -1, 1) = 0.2\<close>, and so after
  \<open>setPreset('baseline')\<close> from any state; \<open>setWeights\<close> puts custom weights in the
  same formula. The clamped mastery gain is never negative
  (a drop in mastery gives 0), and neither is its term for a non-negative \<open>gamma\<close>.
\<close>

theorem computeReward_formula:
  "computeReward \<lparr>RewardWeights.alpha = Fin wa, beta = Fin wb, gamma = Fin wg, preset = p\<rparr>
       (Fin c) (Fin e) (Fin m)
     = Fin (wa * c + wb * max (- 1) (min 1 e) + wg * max 0 (min 1 m))
   \<and> computeReward st c' e' m'
       = RewardWeights.alpha st * c' + beta st * clampNeg1to1 e' + gamma st * reward_clamp01 m'
   \<and> computeReward useRewardWeightsStore_initial (Fin 1) (Fin 0) (Fin 0) = Fin 1
   \<and> computeReward useRewardWeightsStore_initial (Fin 0) (Fin (- 1)) (Fin 1) = Fin (2 / 10)
   \<and> computeReward (setPreset st baseline) (Fin 1) (Fin 0) (Fin 0) = Fin 1
   \<and> computeReward (setPreset st baseline) (Fin 0) (Fin (- 1)) (Fin 1) = Fin (2 / 10)
   \<and> resetToBaseline st = useRewardWeightsStore_initial
   \<and> computeReward (setWeights st \<lparr>RewardWeights.alpha = Fin wa, beta = Fin wb, gamma = Fin wg\<rparr>)
         (Fin c) (Fin e) (Fin m)
       = Fin (wa * c + wb * max (- 1) (min 1 e) + wg * max 0 (min 1 m))
   \<and> \<not> reward_clamp01 m' < Fin 0
   \<and> computeMasteryGain (Fin pm) (Fin cm) = Fin (max 0 (min 1 (cm - pm)))
   \<and> (Fin 0 \<le> gamma st \<longrightarrow> \<not> gamma st * reward_clamp01 m' < Fin 0)"
proof -
  have "computeReward \<lparr>RewardWeights.alpha = Fin wa, beta = Fin wb, gamma = Fin wg, preset = p\<rparr>
       (Fin c) (Fin e) (Fin m)
     = Fin (wa * c + wb * max (- 1) (min 1 e) + wg * max 0 (min 1 m))"
    by (simp add: computeReward_def reward_clamp01_Fin clampNeg1to1_Fin)
  moreover have "computeReward st c' e' m'
       = RewardWeights.alpha st * c' + beta st * clampNeg1to1 e' + gamma st * reward_clamp01 m'"
    by (simp add: computeReward_def)
  moreover have "computeReward useRewardWeightsStore_initial (Fin 1) (Fin 0) (Fin 0) = Fin 1"
    by (simp add: computeReward_def reward_clamp01_Fin clampNeg1to1_Fin
        useRewardWeightsStore_initial_def)
  moreover have "computeReward useRewardWeightsStore_initial (Fin 0) (Fin (- 1)) (Fin 1) = Fin (2 / 10)"
    by (simp add: computeReward_def reward_clamp01_Fin clampNeg1to1_Fin
        useRewardWeightsStore_initial_def)
  moreover have "computeReward (setPreset st baseline) (Fin 1) (Fin 0) (Fin 0) = Fin 1"
    by (simp add: computeReward_def reward_clamp01_Fin clampNeg1to1_Fin setPreset_def)
  moreover have
    "computeReward (setPreset st baseline) (Fin 0) (Fin (- 1)) (Fin 1) = Fin (2 / 10)"
    by (simp add: computeReward_def reward_clamp01_Fin clampNeg1to1_Fin setPreset_def)
  moreover have "resetToBaseline st = useRewardWeightsStore_initial"
    by (simp add: resetToBaseline_def useRewardWeightsStore_initial_def)
  moreover have
    "computeReward (setWeights st \<lparr>RewardWeights.alpha = Fin wa, beta = Fin wb, gamma = Fin wg\<rparr>)
         (Fin c) (Fin e) (Fin m)
       = Fin (wa * c + wb * max (- 1) (min 1 e) + wg * max 0 (min 1 m))"
    by (simp add: computeReward_def reward_clamp01_Fin clampNeg1to1_Fin setWeights_def)
  moreover have "computeMasteryGain (Fin pm) (Fin cm) = Fin (max 0 (min 1 (cm - pm)))"
    by (simp add: computeMasteryGain_def reward_clamp01_Fin minus_num_def)
  ultimately show ?thesis
    using reward_clamp01_not_negative gamma_term_not_negative by blast
qed

theorem computeReward_formula_witness:
  "Fin 0 \<le> gamma useRewardWeightsStore_initial
   \<and> \<not> gamma useRewardWeightsStore_initial * reward_clamp01 (Fin (- 5)) < Fin 0
   \<and> computeReward useRewardWeightsStore_initial (Fin 1) (Fin 2) (Fin (- 5)) = Fin (13 / 10)"
  using computeReward_formula [of 1 "3 / 10" "5 / 10" baseline 1 2 "- 5"
      useRewardWeightsStore_initial "Fin 1" "Fin 2" "Fin (- 5)" 0 0]
  by (simp add: useRewardWeightsStore_initial_def)

section \<open>Properties of the rounding\<close>

lemma rounded_Fin: "rounded rd (Fin r) = rd r"
  by (simp add: rounded_def)

lemmas rounded_ops = fadd_def fsub_def fmul_def fdiv_def fsqrt_def rounded_Fin minus_num_def

text \<open>
  What \<^const>\<open>binary64\<close> returns for a positive number, from the binade it lies in;
  a negative number is rounded as its absolute value is.
\<close>

lemma pow2_powr: "pow2 k = 2 powr real_of_int k"
  by (simp add: pow2_def powr_int)

lemma pow2_pos: "0 < pow2 k"
  by (simp add: pow2_def)

lemma floor_log2:
  assumes "pow2 k \<le> r" "r < pow2 (k + 1)"
  shows "\<lfloor>log 2 r\<rfloor> = k"
proof -
  have "0 < r" using assms(1) pow2_pos [of k] by linarith
  then show ?thesis
    using assms by (simp add: floor_log_eq_powr_iff pow2_powr)
qed

lemma binary64_pos:
  assumes "pow2 k \<le> r" "r < pow2 (k + 1)"
  shows "binary64 r =
    (let q = max (k - 52) (- 1074);
         v = of_int (round_half_even (r / pow2 q)) * pow2 q
     in if 2 ^ 1024 \<le> v then PInf else Fin v)"
proof -
  have "0 < r" using assms(1) pow2_pos [of k] by linarith
  then show ?thesis
    using floor_log2 [OF assms] by (simp add: binary64_def Let_def)
qed

lemma binary64_minus: "binary64 (- r) = - binary64 r"
  by (simp add: binary64_def Let_def)

lemma binary64_0: "binary64 0 = Fin 0"
  by (simp add: binary64_def)

lemmas binary64_eval = binary64_0 binary64_minus pow2_def round_half_even_def Let_def

text \<open>
  Small integers are doubles; the tolerance \<open>1e-10\<close> of the bandit is the double
  \<open>7737125245533627 * 2 ^ (- 86)\<close>.
\<close>

lemma binary64_small:
  "binary64 0 = Fin 0"
  "binary64 1 = Fin 1" "binary64 3 = Fin 3" "binary64 4 = Fin 4" "binary64 5 = Fin 5"
  "binary64 9 = Fin 9" "binary64 12 = Fin 12" "binary64 16 = Fin 16"
  "binary64 25 = Fin 25" "binary64 30 = Fin 30" "binary64 144 = Fin 144"
  by (simp_all add: binary64_eval binary64_pos [of 0] binary64_pos [of 1] binary64_pos [of 2]
      binary64_pos [of 3] binary64_pos [of 4] binary64_pos [of 7])

lemma binary64_tolerance: "binary64 (1 / 10 ^ 10) = Fin (7737125245533627 / 2 ^ 86)"
  by (simp add: binary64_eval binary64_pos [of "- 34"])

text \<open>
  Every double is rounded to itself: \<^const>\<open>binary64\<close> changes no number \<open>m * 2 ^ q\<close>
  with \<open>\<bar>m\<bar> < 2 ^ 53\<close> and \<open>q\<close> from -1074 to 971.
\<close>

lemma pow2_add: "pow2 (i + j) = pow2 i * pow2 j"
  by (simp add: pow2_powr powr_add)

lemma pow2_mono: "i \<le> j \<Longrightarrow> pow2 i \<le> pow2 j"
  by (simp add: pow2_powr)

lemma pow2_nat: "0 \<le> i \<Longrightarrow> pow2 i = of_int (2 ^ nat i)"
  by (simp add: pow2_def)

lemma pow2_53: "pow2 53 = 2 ^ 53"
  by (simp add: pow2_def)

lemma round_half_even_int: "round_half_even (of_int j) = j"
  by (simp add: round_half_even_def)

lemma binary64_double_pos:
  assumes m: "0 < m" "m < 2 ^ 53" and q: "- 1074 \<le> q" "q \<le> 971"
  shows "binary64 (of_int m * pow2 q) = Fin (of_int m * pow2 q)"
proof -
  let ?r = "of_int m * pow2 q :: real"
  have r: "0 < ?r" using m(1) pow2_pos [of q] by simp
  define k where "k = \<lfloor>log 2 ?r\<rfloor>"
  have k: "pow2 k \<le> ?r" "?r < pow2 (k + 1)"
    using r floor_log_eq_powr_iff [of ?r 2 k] by (simp_all add: k_def pow2_powr)
  have "?r < 2 ^ 53 * pow2 q"
    using m(2) pow2_pos [of q]
    by (simp add: of_int_less_iff [of m "2 ^ 53", where ?'a = real, simplified])
  also have "\<dots> = pow2 (53 + q)"
    by (simp only: pow2_add pow2_53)
  finally have "pow2 k < pow2 (53 + q)" using k(1) by linarith
  then have kq: "k - 52 \<le> q"
    by (simp add: pow2_powr)
  define q' where "q' = max (k - 52) (- 1074)"
  have le: "q' \<le> q" using kq q(1) by (simp add: q'_def)
  have "?r / pow2 q' = of_int m * pow2 (q - q')"
    using pow2_add [of "q - q'" q'] pow2_pos [of q'] by (simp add: field_simps)
  also have "\<dots> = of_int (m * 2 ^ nat (q - q'))"
    using le by (simp add: pow2_nat)
  finally have "round_half_even (?r / pow2 q') = m * 2 ^ nat (q - q')"
    by (simp only: round_half_even_int)
  then have v: "of_int (round_half_even (?r / pow2 q')) * pow2 q' = ?r"
    using le pow2_add [of "q - q'" q'] by (simp add: pow2_nat)
  have "?r < 2 ^ 53 * pow2 q" by fact
  also have "\<dots> \<le> 2 ^ 53 * pow2 971"
    using pow2_mono [OF q(2)] by simp
  also have "\<dots> = 2 ^ 1024" by (simp add: pow2_def)
  finally have small: "\<not> 2 ^ 1024 \<le> ?r" by simp
  show ?thesis
    using binary64_pos [OF k] v small by (simp add: Let_def q'_def)
qed

lemma binary64_double:
  assumes "\<bar>m\<bar> < 2 ^ 53" "- 1074 \<le> q" "q \<le> 971"
  shows "binary64 (of_int m * pow2 q) = Fin (of_int m * pow2 q)"
proof -
  consider "m = 0" | "0 < m" | "m < 0" by linarith
  then show ?thesis
  proof cases
    case 1
    then show ?thesis by (simp add: binary64_0)
  next
    case 2
    then show ?thesis using assms by (intro binary64_double_pos) simp_all
  next
    case 3
    then have "binary64 (of_int (- m) * pow2 q) = Fin (of_int (- m) * pow2 q)"
      using assms by (intro binary64_double_pos) simp_all
    then show ?thesis
      using binary64_minus [of "of_int m * pow2 q"]
      by (cases "binary64 (of_int m * pow2 q)") simp_all
  qed
qed

section \<open>Properties of the bandit\<close>

lemma upt_2: "[0..<2] = [0, Suc 0]"
  by (simp add: upt_rec)

lemma nonzero_scaled_identity_iff:
  assumes "0 < n"
  shows "nonzero_scaled_identity n M \<longleftrightarrow> (\<exists>c. c \<noteq> Fin 0 \<and> M = scaled_identity n c)"
proof -
  obtain k where n: "n = Suc k" using assms by (cases n) simp_all
  have hd: "scaled_identity (Suc k) c = (c # map (\<lambda>j. if 0 = j then c else Fin 0) [1..<Suc k])
      # map (\<lambda>i. map (\<lambda>j. if i = j then c else Fin 0) [0..<Suc k]) [1..<Suc k]" for c
    by (simp add: scaled_identity_def upt_conv_Cons del: upt_Suc)
  show ?thesis
  proof
    assume "nonzero_scaled_identity n M"
    then show "\<exists>c. c \<noteq> Fin 0 \<and> M = scaled_identity n c"
      by (auto simp: nonzero_scaled_identity_def split: list.splits)
  next
    assume "\<exists>c. c \<noteq> Fin 0 \<and> M = scaled_identity n c"
    then obtain c where c: "c \<noteq> Fin 0" "M = scaled_identity (Suc k) c"
      using n by blast
    show "nonzero_scaled_identity n M"
      unfolding nonzero_scaled_identity_def c(2) n
      by (subst hd) (simp add: c(1))
  qed
qed

lemma scaled_identity_zero: "scaled_identity n (Fin 0) = replicate n (replicate n (Fin 0))"
  by (simp add: scaled_identity_def map_replicate_const)

text \<open>
  C1 does not hold with a scale other than zero: the matrix of a new arm is all zeros,
  diagonal included. Here for \<open>d = 2\<close>.
\<close>

theorem getOrCreateContext_fresh_not_identity:
  "A (snd (getOrCreateContext (LinUCB_new 2 (Fin 1)) ''arm0''))
      = [[Fin 0, Fin 0], [Fin 0, Fin 0]]
   \<and> \<not> nonzero_scaled_identity 2
        (A (snd (getOrCreateContext (LinUCB_new 2 (Fin 1)) ''arm0'')))"
  by (simp add: getOrCreateContext_def LinUCB_new_def nonzero_scaled_identity_def
      numeral_2_eq_2 Let_def)

text \<open>
  C1, as the code has it. On the first reference to an arm id, \<open>getOrCreateContext\<close>
  stores and returns a state whose matrix \<open>A\<close> is the \<open>d\<close> by \<open>d\<close> zero matrix (the
  identity scaled by 0) and whose vector \<open>b\<close> is \<open>d\<close> zeros; the other arms are
  untouched. On a later reference it returns the stored state and changes nothing.
\<close>

theorem getOrCreateContext_fresh:
  "(contexts this armId = None \<longrightarrow>
      (let (this', context) = getOrCreateContext this armId
       in A context = replicate (d this) (replicate (d this) (Fin 0))
        \<and> A context = scaled_identity (d this) (Fin 0)
        \<and> b context = replicate (d this) (Fin 0)
        \<and> contexts this' armId = Some context
        \<and> (\<forall>other. other \<noteq> armId \<longrightarrow> contexts this' other = contexts this other)
        \<and> d this' = d this))
   \<and> (\<forall>context. contexts this armId = Some context \<longrightarrow>
        getOrCreateContext this armId = (this, context))"
  by (simp add: getOrCreateContext_def Let_def scaled_identity_zero)

theorem getOrCreateContext_fresh_witness:
  "contexts (LinUCB_new 3 (Fin 1)) ''arm1'' = None
   \<and> A (snd (getOrCreateContext (LinUCB_new 3 (Fin 1)) ''arm1''))
       = [[Fin 0, Fin 0, Fin 0], [Fin 0, Fin 0, Fin 0], [Fin 0, Fin 0, Fin 0]]
   \<and> b (snd (getOrCreateContext (LinUCB_new 3 (Fin 1)) ''arm1'')) = [Fin 0, Fin 0, Fin 0]
   \<and> contexts (update binary64 (LinUCB_new 2 (Fin 1)) [Fin 3, Fin 4] (Fin 1) ''arm0'') ''arm0''
       = Some \<lparr>A = [[Fin 9, Fin 12], [Fin 12, Fin 16]], b = [Fin 3, Fin 4], alpha = Fin 1\<rparr>
   \<and> snd (getOrCreateContext
         (update binary64 (LinUCB_new 2 (Fin 1)) [Fin 3, Fin 4] (Fin 1) ''arm0'') ''arm0'')
       = \<lparr>A = [[Fin 9, Fin 12], [Fin 12, Fin 16]], b = [Fin 3, Fin 4], alpha = Fin 1\<rparr>"
proof -
  have new: "contexts (LinUCB_new 3 (Fin 1)) ''arm1'' = None"
    by (simp add: LinUCB_new_def)
  have old: "contexts (update binary64 (LinUCB_new 2 (Fin 1)) [Fin 3, Fin 4] (Fin 1) ''arm0'') ''arm0''
       = Some \<lparr>A = [[Fin 9, Fin 12], [Fin 12, Fin 16]], b = [Fin 3, Fin 4], alpha = Fin 1\<rparr>"
    by (simp add: update_def getOrCreateContext_def LinUCB_new_def Let_def upt_2
        numeral_2_eq_2 elem_def rounded_ops binary64_small)
  show ?thesis
    using getOrCreateContext_fresh [of "LinUCB_new 3 (Fin 1)" "''arm1''"]
      getOrCreateContext_fresh [of
        "update binary64 (LinUCB_new 2 (Fin 1)) [Fin 3, Fin 4] (Fin 1) ''arm0''" "''arm0''"]
      new old
    by (simp add: LinUCB_new_def split_beta numeral_3_eq_3)
qed

subsection \<open>The inverse\<close>

lemma elem_simps [simp]:
  "elem (x # xs) 0 = x" "elem (x # xs) (Suc i) = elem xs i" "elem [] i = NaN"
  by (simp_all add: elem_def)

text \<open>
  C9, as the code has it. \<open>inverse\<close> supports two dimensions only and throws for any
  other \<open>d\<close>. For \<open>d = 2\<close> a matrix whose determinant, as the code computes it, is below
  the tolerance \<open>1e-10\<close> in absolute value is replaced by the identity instead of
  failing; the all-zero matrix of a new arm is one (zero is a double, the tolerance is
  above it). Nothing is said of the score: whether it is finite is left open.
\<close>

theorem inverse2_singular_identity:
  "(d this = 2 \<longrightarrow>
      Math_abs (fsub rd (fmul rd a e) (fmul rd c g)) < rd (1 / 10 ^ 10) \<longrightarrow>
      inverse2 rd this [[a, c], [g, e]] = Inr [[Fin 1, Fin 0], [Fin 0, Fin 1]])
   \<and> (d this \<noteq> 2 \<longrightarrow> inverse2 rd this M = Inl (Error ''Only 2D supported for self-check''))
   \<and> (d this = 2 \<longrightarrow> contexts this armId = None \<longrightarrow>
        rd 0 = Fin 0 \<longrightarrow> Fin 0 < rd (1 / 10 ^ 10) \<longrightarrow>
        inverse2 rd this (A (snd (getOrCreateContext this armId)))
          = Inr [[Fin 1, Fin 0], [Fin 0, Fin 1]])"
proof -
  have small: "inverse2 rd this [[a, c], [g, e]] = Inr [[Fin 1, Fin 0], [Fin 0, Fin 1]]"
    if "d this = 2" "Math_abs (fsub rd (fmul rd a e) (fmul rd c g)) < rd (1 / 10 ^ 10)"
    using that by (simp add: inverse2_def Let_def)
  have other: "inverse2 rd this M = Inl (Error ''Only 2D supported for self-check'')"
    if "d this \<noteq> 2"
    using that by (simp add: inverse2_def)
  have zero: "fsub rd (fmul rd (Fin 0) (Fin 0)) (fmul rd (Fin 0) (Fin 0)) = Fin 0"
    if "rd 0 = Fin 0"
    using that by (simp add: fmul_def fsub_def minus_num_def rounded_Fin)
  have fresh: "inverse2 rd this (A (snd (getOrCreateContext this armId)))
      = Inr [[Fin 1, Fin 0], [Fin 0, Fin 1]]"
    if "d this = 2" "contexts this armId = None" "rd 0 = Fin 0" "Fin 0 < rd (1 / 10 ^ 10)"
    using that zero by (simp add: inverse2_def Let_def getOrCreateContext_def numeral_2_eq_2)
  from small other fresh show ?thesis
    by blast
qed

theorem inverse2_singular_identity_witness:
  "contexts (update binary64 (LinUCB_new 2 (Fin 1)) [Fin 3, Fin 4] (Fin 1) ''arm0'') ''arm0''
       = Some \<lparr>A = [[Fin 9, Fin 12], [Fin 12, Fin 16]], b = [Fin 3, Fin 4], alpha = Fin 1\<rparr>
   \<and> fsub binary64 (fmul binary64 (Fin 9) (Fin 16)) (fmul binary64 (Fin 12) (Fin 12))
       = Fin 0
   \<and> inverse2 binary64 (LinUCB_new 2 (Fin 1)) [[Fin 9, Fin 12], [Fin 12, Fin 16]]
       = Inr [[Fin 1, Fin 0], [Fin 0, Fin 1]]
   \<and> snd (selectArm binary64
          (update binary64 (LinUCB_new 2 (Fin 1)) [Fin 3, Fin 4] (Fin 1) ''arm0'')
          [Fin 3, Fin 4] ''arm0'')
       = Inr (Fin 30)
   \<and> inverse2 binary64 (LinUCB_new 3 (Fin 1)) [[Fin 9, Fin 12], [Fin 12, Fin 16]]
       = Inl (Error ''Only 2D supported for self-check'')
   \<and> contexts (LinUCB_new 2 (Fin 1)) ''arm1'' = None
   \<and> inverse2 binary64 (LinUCB_new 2 (Fin 1))
        (A (snd (getOrCreateContext (LinUCB_new 2 (Fin 1)) ''arm1'')))
       = Inr [[Fin 1, Fin 0], [Fin 0, Fin 1]]"
proof -
  let ?s = "update binary64 (LinUCB_new 2 (Fin 1)) [Fin 3, Fin 4] (Fin 1) ''arm0''"
  have st: "?s = \<lparr>contexts = [''arm0'' \<mapsto>
        \<lparr>A = [[Fin 9, Fin 12], [Fin 12, Fin 16]], b = [Fin 3, Fin 4], alpha = Fin 1\<rparr>],
      d = 2, alpha = Fin 1\<rparr>"
    by (simp add: update_def getOrCreateContext_def LinUCB_new_def Let_def upt_2
        numeral_2_eq_2 rounded_ops binary64_small)
  have det: "fsub binary64 (fmul binary64 (Fin 9) (Fin 16))
      (fmul binary64 (Fin 12) (Fin 12)) = Fin 0"
    by (simp add: rounded_ops binary64_small minus_num_def)
  have d2: "d (LinUCB_new 2 (Fin 1)) = 2" and d3: "d (LinUCB_new 3 (Fin 1)) \<noteq> 2"
    and new: "contexts (LinUCB_new 2 (Fin 1)) ''arm1'' = None"
    by (simp_all add: LinUCB_new_def)
  note two = inverse2_singular_identity [of "LinUCB_new 2 (Fin 1)" binary64 "Fin 9" "Fin 16"
      "Fin 12" "Fin 12" "[]" "''arm1''"]
  note three = inverse2_singular_identity [of "LinUCB_new 3 (Fin 1)" binary64 "Fin 9"
      "Fin 16" "Fin 12" "Fin 12" "[[Fin 9, Fin 12], [Fin 12, Fin 16]]" "''arm1''"]
  have inv: "inverse2 binary64 (LinUCB_new 2 (Fin 1)) [[Fin 9, Fin 12], [Fin 12, Fin 16]]
       = Inr [[Fin 1, Fin 0], [Fin 0, Fin 1]]"
    using two d2 det by (simp add: binary64_eval binary64_pos [of "- 34"])
  have fresh: "inverse2 binary64 (LinUCB_new 2 (Fin 1))
        (A (snd (getOrCreateContext (LinUCB_new 2 (Fin 1)) ''arm1'')))
       = Inr [[Fin 1, Fin 0], [Fin 0, Fin 1]]"
    using two d2 new by (simp add: binary64_eval binary64_pos [of "- 34"])
  have thrown: "inverse2 binary64 (LinUCB_new 3 (Fin 1)) [[Fin 9, Fin 12], [Fin 12, Fin 16]]
       = Inl (Error ''Only 2D supported for self-check'')"
    using three d3 by simp
  have score: "snd (selectArm binary64 ?s [Fin 3, Fin 4] ''arm0'') = Inr (Fin 30)"
    unfolding st
    by (simp add: selectArm_def getOrCreateContext_def inverse2_def Let_def minus_num_def
        matrixVectorMultiply_def quadraticForm_def dotProduct_def rounded_ops binary64_small
        binary64_eval binary64_pos [of "- 34"])
  from st det inv score thrown new fresh show ?thesis
    by simp
qed

subsection \<open>The score in doubles\<close>

lemma plus_NaN: "x + NaN = NaN"
  by (cases x) simp_all

lemma times_NaN: "x * NaN = NaN"
  by (cases x) simp_all

text \<open>
  The score of a stored arm, once its matrix is inverted.
\<close>

lemma selectArm_stored:
  assumes "contexts this armId = Some \<lparr>A = M, b = v, alpha = w\<rparr>"
    and "inverse2 rd this M = Inr AInv"
  shows "snd (selectArm rd this features armId)
    = Inr (fadd rd (dotProduct rd (matrixVectorMultiply rd AInv v) features)
        (fmul rd (LinUCB.alpha this) (fsqrt rd (quadraticForm rd AInv features))))"
  using assms by (simp add: selectArm_def getOrCreateContext_def Let_def)

text \<open>
  In doubles the score is not always a number. After \<open>update([13.6, 39.7], 1, 'arm0')\<close>
  on a new two-dimensional bandit the stored matrix has the entries
  184.95999999999998, 539.9200000000001 and 1576.0900000000001; its determinant comes
  out as \<open>- 2 ^ (- 33)\<close>, about -1.16e-10 and so outside the tolerance, where the
  exact determinant of the exact products is 0. The inverse then has a negative
  diagonal, the quadratic form of \<open>[1, 0]\<close> is negative, \<open>Math.sqrt\<close> of it is \<open>NaN\<close>,
  and so is the score.
\<close>

lemma selectArm_not_a_number:
  "contexts (update binary64 (LinUCB_new 2 (Fin 1))
       [binary64 (136 / 10), binary64 (397 / 10)] (Fin 1) ''arm0'') ''arm0''
     = Some \<lparr>A = [[Fin (3253850730775183 / 2 ^ 44), Fin (296824159034409 / 2 ^ 39)],
                 [Fin (296824159034409 / 2 ^ 39), Fin (433232320355369 / 2 ^ 38)]],
             b = [Fin (7656119366529843 / 2 ^ 49), Fin (2793639143853261 / 2 ^ 46)],
             alpha = Fin 1\<rparr>
   \<and> inverse2 binary64 (LinUCB_new 2 (Fin 1))
       [[Fin (3253850730775183 / 2 ^ 44), Fin (296824159034409 / 2 ^ 39)],
        [Fin (296824159034409 / 2 ^ 39), Fin (433232320355369 / 2 ^ 38)]]
     = Inr [[Fin (- (433232320355369 / 2 ^ 5)), Fin (296824159034409 / 2 ^ 6)],
            [Fin (296824159034409 / 2 ^ 6), Fin (- (3253850730775183 / 2 ^ 11))]]
   \<and> snd (selectArm binary64
        (update binary64 (LinUCB_new 2 (Fin 1))
           [binary64 (136 / 10), binary64 (397 / 10)] (Fin 1) ''arm0'')
        [Fin 1, Fin 0] ''arm0'')
     = Inr NaN"
proof -
  let ?s = "update binary64 (LinUCB_new 2 (Fin 1))
       [binary64 (136 / 10), binary64 (397 / 10)] (Fin 1) ''arm0''"
  let ?A = "[[Fin (3253850730775183 / 2 ^ 44), Fin (296824159034409 / 2 ^ 39)],
        [Fin (296824159034409 / 2 ^ 39), Fin (433232320355369 / 2 ^ 38)]]"
  have st: "?s = \<lparr>contexts = [''arm0'' \<mapsto>
        \<lparr>A = ?A, b = [Fin (7656119366529843 / 2 ^ 49), Fin (2793639143853261 / 2 ^ 46)],
         alpha = Fin 1\<rparr>],
      d = 2, alpha = Fin 1\<rparr>"
    by (simp add: update_def getOrCreateContext_def LinUCB_new_def Let_def upt_2
        numeral_2_eq_2 rounded_ops binary64_eval binary64_pos [of 3] binary64_pos [of 5]
        binary64_pos [of 7] binary64_pos [of 9] binary64_pos [of 10])
  have inv: "inverse2 binary64 s ?A
     = Inr [[Fin (- (433232320355369 / 2 ^ 5)), Fin (296824159034409 / 2 ^ 6)],
            [Fin (296824159034409 / 2 ^ 6), Fin (- (3253850730775183 / 2 ^ 11))]]"
    if "d s = 2" for s
    using that
    by (simp add: inverse2_def rounded_ops binary64_eval binary64_pos [of 18]
        binary64_pos [of "- 33"] binary64_pos [of "- 34"] binary64_pos [of 40]
        binary64_pos [of 41] binary64_pos [of 42] binary64_pos [of 43])
  have stored: "contexts ?s ''arm0'' = Some
        \<lparr>A = ?A, b = [Fin (7656119366529843 / 2 ^ 49), Fin (2793639143853261 / 2 ^ 46)],
         alpha = Fin 1\<rparr>"
    and d2: "d ?s = 2"
    unfolding st by simp_all
  have form: "quadraticForm binary64
        [[Fin (- (433232320355369 / 2 ^ 5)), Fin (296824159034409 / 2 ^ 6)],
         [Fin (296824159034409 / 2 ^ 6), Fin (- (3253850730775183 / 2 ^ 11))]]
        [Fin 1, Fin 0]
      = Fin (- (433232320355369 / 2 ^ 5))"
    by (simp add: matrixVectorMultiply_def quadraticForm_def dotProduct_def rounded_ops
        binary64_eval binary64_pos [of 0] binary64_pos [of 42] binary64_pos [of 43])
  have score: "snd (selectArm binary64 ?s [Fin 1, Fin 0] ''arm0'') = Inr NaN"
    unfolding selectArm_stored [OF stored inv [OF d2]] form
    by (simp add: fsqrt_def fmul_def fadd_def rounded_def plus_NaN times_NaN)
  have "d (LinUCB_new 2 (Fin 1)) = 2"
    by (simp add: LinUCB_new_def)
  from stored inv [OF this] score show ?thesis
    by (intro conjI)
qed

subsection \<open>No score\<close>

text \<open>
  C9 does not hold as it stands, for two reasons. A bandit of any dimension but two gets
  no inverse: with \<open>d = 3\<close> the new arm's matrix is singular (all zeros), and the
  inversion throws instead of returning the identity, so \<open>selectArm\<close> gives no score at
  all. And with \<open>d = 2\<close> the score of finite features can be \<open>NaN\<close>: after
  \<open>update([13.6, 39.7], 1, 'arm0')\<close> the score of \<open>[1, 0]\<close> is, in doubles.
\<close>

theorem selectArm_no_finite_score:
  "inverse2 binary64 (LinUCB_new 3 (Fin 1))
       (A (snd (getOrCreateContext (LinUCB_new 3 (Fin 1)) ''arm0'')))
     = Inl (Error ''Only 2D supported for self-check'')
   \<and> snd (selectArm binary64 (LinUCB_new 3 (Fin 1)) [Fin 1, Fin 0, Fin 0] ''arm0'')
     = Inl (Error ''Only 2D supported for self-check'')
   \<and> snd (selectArm binary64
        (update binary64 (LinUCB_new 2 (Fin 1))
           [binary64 (136 / 10), binary64 (397 / 10)] (Fin 1) ''arm0'')
        [Fin 1, Fin 0] ''arm0'')
     = Inr NaN"
proof -
  have "inverse2 binary64 (LinUCB_new 3 (Fin 1))
       (A (snd (getOrCreateContext (LinUCB_new 3 (Fin 1)) ''arm0'')))
     = Inl (Error ''Only 2D supported for self-check'')"
    and "snd (selectArm binary64 (LinUCB_new 3 (Fin 1)) [Fin 1, Fin 0, Fin 0] ''arm0'')
     = Inl (Error ''Only 2D supported for self-check'')"
    by (simp_all add: selectArm_def inverse2_def getOrCreateContext_def LinUCB_new_def Let_def)
  with selectArm_not_a_number show ?thesis
    by (intro conjI) (elim conjE, assumption)+
qed

section \<open>Properties of the audio chunks\<close>

subsection \<open>The encoder never throws and keeps the length\<close>

lemma fits_poke: "offset + length bs \<le> L \<Longrightarrow> fits L (poke offset bs)"
  by (simp add: fits_def poke_def)

lemma fits_sequence: "(\<And>w. w \<in> set ws \<Longrightarrow> fits L w) \<Longrightarrow> fits L (sequence ws)"
proof (induction ws)
  case Nil
  then show ?case by (simp add: fits_def)
next
  case (Cons w ws)
  have w: "fits L w" and rest: "fits L (sequence ws)"
    using Cons by simp_all
  show ?case
    unfolding fits_def
  proof (intro allI impI)
    fix view :: "byte list"
    assume "length view = L"
    then obtain view' where "w view = Inr view'" "length view' = L"
      using w by (auto simp: fits_def)
    then show "\<exists>v. sequence (w # ws) view = Inr v \<and> length v = L"
      using rest by (simp add: fits_def)
  qed
qed

lemma length_le_bytes [simp]: "length (le_bytes k v) = k"
  by (simp add: le_bytes_def)

lemma fits_setUint8: "offset + 1 \<le> L \<Longrightarrow> fits L (setUint8 offset v)"
  by (simp add: setUint8_def fits_poke)

lemma fits_setUint16: "offset + 2 \<le> L \<Longrightarrow> fits L (setUint16 offset v)"
  by (simp add: setUint16_def fits_poke)

lemma fits_setUint32: "offset + 4 \<le> L \<Longrightarrow> fits L (setUint32 offset v)"
  by (simp add: setUint32_def fits_poke)

lemma fits_setFloat32: "offset + 4 \<le> L \<Longrightarrow> fits L (setFloat32 offset x)"
  by (simp add: setFloat32_def fits_poke)

lemma fits_writeString: "offset + length s \<le> L \<Longrightarrow> fits L (writeString offset s)"
  unfolding writeString_def
  by (rule fits_sequence) (auto simp: in_set_enumerate_eq intro!: fits_setUint8)

lemma encodeWavFloat32Mono_length:
  "\<exists>wav. encodeWavFloat32Mono samples sampleRate = Inr wav
       \<and> length wav = 44 + length samples * 4"
proof -
  let ?L = "44 + length samples * 4"
  have "fits ?L (sequence
           ([writeString 0 ''RIFF'',
             setUint32 4 (36 + length samples * 4),
             writeString 8 ''WAVE'',
             writeString 12 ''fmt '',
             setUint32 16 16,
             setUint16 20 3,
             setUint16 22 1,
             setUint32 24 sampleRate,
             setUint32 28 (sampleRate * 4),
             setUint16 32 4,
             setUint16 34 32,
             writeString 36 ''data'',
             setUint32 40 (length samples * 4)]
            @ map (\<lambda>(i, x). setFloat32 (44 + 4 * i) x) (enumerate 0 samples)))"
    by (rule fits_sequence)
      (auto simp: in_set_enumerate_eq
        intro!: fits_writeString fits_setUint32 fits_setUint16 fits_setFloat32)
  then show ?thesis
    by (simp add: fits_def encodeWavFloat32Mono_def Let_def)
qed

subsection \<open>The three ways a window ends\<close>

lemma isDuplicate_chunkSeq [simp]: "isDuplicate (this\<lparr>chunkSeq := k\<rparr>) signature = isDuplicate this signature"
  by (cases "lastSignature this") (simp_all add: isDuplicate_def)

lemma process_chunk_silent:
  assumes "isSilent (computeSignature chunk)"
  shows "process_chunk this chunk now =
     (this\<lparr>chunkSeq := chunkSeq this + 1, lastSignature := Some (computeSignature chunk)\<rparr>,
      (if onChunkMeta_set this
       then [OnChunkMeta (with_flags
               (buildMeta (chunkSeq this + 1) (length chunk) (computeSignature chunk) now)
               True False)]
       else []),
      None)"
  using assms by (simp add: process_chunk_def isSilent_def Let_def call_onChunkMeta_def)

lemma process_chunk_skip:
  assumes "\<not> isSilent (computeSignature chunk)"
    and "isDuplicate this (computeSignature chunk)"
    and "consecutiveDuplicates this < 5"
  shows "process_chunk this chunk now =
     (this\<lparr>chunkSeq := chunkSeq this + 1,
           consecutiveDuplicates := consecutiveDuplicates this + 1,
           lastSignature := Some (computeSignature chunk)\<rparr>,
      (if onChunkMeta_set this
       then [OnChunkMeta (with_flags
               (buildMeta (chunkSeq this + 1) (length chunk) (computeSignature chunk) now)
               True False)]
       else []),
      None)"
  using assms
  by (auto simp: process_chunk_def isSilent_def Let_def call_onChunkMeta_def
      maxConsecutiveDuplicates_def)

lemma process_chunk_send:
  assumes "\<not> isSilent (computeSignature chunk)"
    and "\<not> isDuplicate this (computeSignature chunk) \<or> 5 \<le> consecutiveDuplicates this"
  shows "\<exists>wav. encodeWavFloat32Mono chunk targetSr = Inr wav
     \<and> length wav = 44 + length chunk * 4
     \<and> process_chunk this chunk now =
     (this\<lparr>chunkSeq := chunkSeq this + 1, consecutiveDuplicates := 0,
           lastSignature := Some (computeSignature chunk)\<rparr>,
      (if onChunkMeta_set this
       then [OnChunkMeta (with_flags
               (buildMeta (chunkSeq this + 1) (length chunk) (computeSignature chunk) now)
               (isDuplicate this (computeSignature chunk)) True)]
       else []) @ [OnChunk wav],
      None)"
proof -
  obtain wav where wav: "encodeWavFloat32Mono chunk targetSr = Inr wav"
      "length wav = 44 + length chunk * 4"
    using encodeWavFloat32Mono_length by blast
  have "process_chunk this chunk now =
     (this\<lparr>chunkSeq := chunkSeq this + 1, consecutiveDuplicates := 0,
           lastSignature := Some (computeSignature chunk)\<rparr>,
      (if onChunkMeta_set this
       then [OnChunkMeta (with_flags
               (buildMeta (chunkSeq this + 1) (length chunk) (computeSignature chunk) now)
               (isDuplicate this (computeSignature chunk)) True)]
       else []) @ [OnChunk wav],
      None)"
    using assms wav(1)
    by (auto simp: process_chunk_def isSilent_def Let_def call_onChunkMeta_def
        maxConsecutiveDuplicates_def)
  with wav show ?thesis by blast
qed

lemma process_chunk_no_error: "snd (snd (process_chunk this chunk now)) = None"
proof (cases "isSilent (computeSignature chunk)")
  case True
  then show ?thesis by (simp add: process_chunk_silent)
next
  case False
  show ?thesis
  proof (cases "isDuplicate this (computeSignature chunk) \<and> consecutiveDuplicates this < 5")
    case True
    with False show ?thesis by (simp add: process_chunk_skip)
  next
    case False
    then have "\<not> isDuplicate this (computeSignature chunk) \<or> 5 \<le> consecutiveDuplicates this"
      by auto
    from process_chunk_send [OF \<open>\<not> isSilent (computeSignature chunk)\<close> this, of now]
    show ?thesis by auto
  qed
qed

lemma signature_loop_zeros:
  "signature_loop (replicate n (Fin 0)) (Fin 0, Fin 0, Fin 0) = (Fin 0, Fin 0, Fin 0)"
  by (induction n) simp_all

lemma computeSignature_zeros:
  "computeSignature (replicate (Suc n) (Fin 0)) = \<lparr>rms = Fin 0, peak = Fin 0, mean = Fin 0\<rparr>"
proof -
  have "real n + 1 \<noteq> 0" by linarith
  then show ?thesis
    unfolding computeSignature_def signature_loop_zeros
    by (simp del: replicate_Suc)
qed

text \<open>
  C5. A window whose signature is exactly zero in RMS, peak and mean (as that of a
  window of zero samples is) ends in the silence branch: the one callback called is
  the metadata callback, when one is registered, with \<open>duplicate = true\<close> and
  \<open>sent = false\<close>; \<open>onChunk\<close> is not called; \<open>lastSignature\<close> becomes this window's
  signature; the count of consecutive duplicates stays as it was.
\<close>

theorem silent_window_skipped:
  assumes "strict_eq (rms (computeSignature chunk)) (Fin 0)"
    and "strict_eq (peak (computeSignature chunk)) (Fin 0)"
    and "strict_eq (mean (computeSignature chunk)) (Fin 0)"
  shows "process_chunk this chunk now =
       (this\<lparr>chunkSeq := chunkSeq this + 1, lastSignature := Some (computeSignature chunk)\<rparr>,
        (if onChunkMeta_set this
         then [OnChunkMeta (with_flags
                 (buildMeta (chunkSeq this + 1) (length chunk) (computeSignature chunk) now)
                 True False)]
         else []),
        None)
     \<and> duplicate (with_flags
           (buildMeta (chunkSeq this + 1) (length chunk) (computeSignature chunk) now)
           True False)
     \<and> \<not> sent (with_flags
           (buildMeta (chunkSeq this + 1) (length chunk) (computeSignature chunk) now)
           True False)
     \<and> (\<forall>wav. OnChunk wav \<notin> set (fst (snd (process_chunk this chunk now))))
     \<and> lastSignature (fst (process_chunk this chunk now)) = Some (computeSignature chunk)
     \<and> consecutiveDuplicates (fst (process_chunk this chunk now)) = consecutiveDuplicates this
     \<and> computeSignature (replicate (Suc n) (Fin 0))
         = \<lparr>rms = Fin 0, peak = Fin 0, mean = Fin 0\<rparr>"
proof -
  have "isSilent (computeSignature chunk)"
    using assms by (simp add: isSilent_def)
  then show ?thesis
    by (simp add: process_chunk_silent with_flags_def computeSignature_zeros del: replicate_Suc)
qed

theorem silent_window_skipped_witness:
  "process_chunk
     \<lparr>actualSr = Fin 16000, chunkSeq = 7, lastSignature = None, consecutiveDuplicates = 2,
      duplicateThreshold = Fin (1 / 10000), onChunkMeta_set = True\<rparr>
     [Fin 0, Fin 0] (Fin 99)
   = (\<lparr>actualSr = Fin 16000, chunkSeq = 8,
       lastSignature = Some \<lparr>rms = Fin 0, peak = Fin 0, mean = Fin 0\<rparr>,
       consecutiveDuplicates = 2,
       duplicateThreshold = Fin (1 / 10000), onChunkMeta_set = True\<rparr>,
      [OnChunkMeta \<lparr>rms = Fin 0, peak = Fin 0, mean = Fin 0, seq = 8, sampleCount = 2,
          durationSec = Fin (2 / 16000), approxBytes = 52, timestamp = Fin 99,
          duplicate = True, sent = False\<rparr>],
      None)"
proof -
  have sig: "computeSignature [Fin 0, Fin 0] = \<lparr>rms = Fin 0, peak = Fin 0, mean = Fin 0\<rparr>"
    by (simp add: computeSignature_def)
  show ?thesis
    using silent_window_skipped [of "[Fin 0, Fin 0]"
        "\<lparr>actualSr = Fin 16000, chunkSeq = 7, lastSignature = None, consecutiveDuplicates = 2,
          duplicateThreshold = Fin (1 / 10000), onChunkMeta_set = True\<rparr>" "Fin 99" 0]
    by (simp add: sig strict_eq_def with_flags_def buildMeta_def targetSr_def)
qed

lemma process_chunk_sizes:
  "\<exists>wav. encodeWavFloat32Mono chunk targetSr = Inr wav
     \<and> approxBytes (buildMeta sq (length chunk) signature now) = 44 + 4 * length chunk
     \<and> length wav = approxBytes (buildMeta sq (length chunk) signature now)
     \<and> (\<forall>meta. OnChunkMeta meta \<in> set (fst (snd (process_chunk this chunk now))) \<longrightarrow>
           sampleCount meta = length chunk \<and> approxBytes meta = 44 + 4 * sampleCount meta
           \<and> approxBytes meta = length wav)
     \<and> (\<forall>bytes. OnChunk bytes \<in> set (fst (snd (process_chunk this chunk now))) \<longrightarrow>
           bytes = wav)"
proof -
  obtain wav where wav: "encodeWavFloat32Mono chunk targetSr = Inr wav"
      "length wav = 44 + length chunk * 4"
    using encodeWavFloat32Mono_length by blast
  have calls: "(\<forall>meta. OnChunkMeta meta \<in> set (fst (snd (process_chunk this chunk now))) \<longrightarrow>
           sampleCount meta = length chunk \<and> approxBytes meta = 44 + 4 * sampleCount meta
           \<and> approxBytes meta = length wav)
     \<and> (\<forall>bytes. OnChunk bytes \<in> set (fst (snd (process_chunk this chunk now))) \<longrightarrow>
           bytes = wav)"
  proof (cases "isSilent (computeSignature chunk)")
    case True
    then show ?thesis
      by (simp add: process_chunk_silent with_flags_def buildMeta_def wav(2))
  next
    case False
    show ?thesis
    proof (cases "isDuplicate this (computeSignature chunk) \<and> consecutiveDuplicates this < 5")
      case True
      with False show ?thesis
        by (simp add: process_chunk_skip with_flags_def buildMeta_def wav(2))
    next
      case False
      then have "\<not> isDuplicate this (computeSignature chunk) \<or> 5 \<le> consecutiveDuplicates this"
        by auto
      from process_chunk_send [OF \<open>\<not> isSilent (computeSignature chunk)\<close> this, of now]
      show ?thesis
        using wav by (auto simp: with_flags_def buildMeta_def)
    qed
  qed
  show ?thesis
    using wav calls by (intro exI [of _ wav]) (simp add: buildMeta_def)
qed

text \<open>
  C10. The \<open>approxBytes\<close> of a window's metadata is \<open>44 + 4 * sampleCount\<close>, and that
  is the length of the buffer \<open>encodeWavFloat32Mono\<close> returns for the window (the
  encoder never throws): every metadata record a window emits carries the window's
  sample count and this size, and the blob a dispatched window hands to \<open>onChunk\<close>
  is that buffer. The same holds of the metadata and the blob of a window that was
  resampled first.
\<close>

theorem approxBytes_is_wav_length:
  "(\<exists>wav. encodeWavFloat32Mono chunk targetSr = Inr wav
     \<and> approxBytes (buildMeta sq (length chunk) signature now) = 44 + 4 * length chunk
     \<and> length wav = approxBytes (buildMeta sq (length chunk) signature now)
     \<and> (\<forall>meta. OnChunkMeta meta \<in> set (fst (snd (process_chunk this chunk now))) \<longrightarrow>
           sampleCount meta = length chunk \<and> approxBytes meta = 44 + 4 * sampleCount meta
           \<and> approxBytes meta = length wav)
     \<and> (\<forall>bytes. OnChunk bytes \<in> set (fst (snd (process_chunk this chunk now))) \<longrightarrow>
           bytes = wav))
   \<and> (\<forall>meta bytes.
         OnChunkMeta meta \<in> set (fst (snd (onaudioprocess_window this rawChunk now))) \<longrightarrow>
         OnChunk bytes \<in> set (fst (snd (onaudioprocess_window this rawChunk now))) \<longrightarrow>
         approxBytes meta = 44 + 4 * sampleCount meta \<and> length bytes = approxBytes meta)"
proof -
  have "approxBytes meta = 44 + 4 * sampleCount meta \<and> length bytes = approxBytes meta"
    if m: "OnChunkMeta meta \<in> set (fst (snd (onaudioprocess_window this rawChunk now)))"
      and b: "OnChunk bytes \<in> set (fst (snd (onaudioprocess_window this rawChunk now)))"
    for meta bytes
  proof (cases "if \<not> strict_eq (actualSr this) (Fin (real targetSr))
            then resample rawChunk (actualSr this) (Fin (real targetSr))
            else Inr rawChunk")
    case (Inl e)
    with m show ?thesis by (simp add: onaudioprocess_window_def)
  next
    case (Inr resampled)
    then have run: "onaudioprocess_window this rawChunk now = process_chunk this resampled now"
      by (simp add: onaudioprocess_window_def)
    have m': "OnChunkMeta meta \<in> set (fst (snd (process_chunk this resampled now)))"
      using m by (simp only: run)
    have b': "OnChunk bytes \<in> set (fst (snd (process_chunk this resampled now)))"
      using b by (simp only: run)
    from process_chunk_sizes [of resampled 0 "computeSignature resampled" now this]
    obtain wav where
      metas: "\<forall>meta. OnChunkMeta meta \<in> set (fst (snd (process_chunk this resampled now))) \<longrightarrow>
           sampleCount meta = length resampled \<and> approxBytes meta = 44 + 4 * sampleCount meta
           \<and> approxBytes meta = length wav"
      and blobs: "\<forall>bytes. OnChunk bytes \<in> set (fst (snd (process_chunk this resampled now))) \<longrightarrow>
           bytes = wav"
      by (elim exE conjE)
    from metas [rule_format, OF m'] blobs [rule_format, OF b'] show ?thesis
      by simp
  qed
  then show ?thesis
    by (intro conjI allI impI process_chunk_sizes) simp_all
qed

theorem approxBytes_is_wav_length_witness:
  "OnChunkMeta \<lparr>rms = Fin 1, peak = Fin 1, mean = Fin 1, seq = 1, sampleCount = 1,
          durationSec = Fin (1 / 16000), approxBytes = 48, timestamp = Fin 0,
          duplicate = False, sent = True\<rparr>
     \<in> set (fst (snd (process_chunk
           \<lparr>actualSr = Fin 16000, chunkSeq = 0, lastSignature = None, consecutiveDuplicates = 0,
            duplicateThreshold = Fin (1 / 10000), onChunkMeta_set = True\<rparr> [Fin 1] (Fin 0))))
   \<and> (\<exists>wav. OnChunk wav \<in> set (fst (snd (process_chunk
           \<lparr>actualSr = Fin 16000, chunkSeq = 0, lastSignature = None, consecutiveDuplicates = 0,
            duplicateThreshold = Fin (1 / 10000), onChunkMeta_set = True\<rparr> [Fin 1] (Fin 0))))
         \<and> length wav = 48)"
proof -
  let ?s = "\<lparr>actualSr = Fin 16000, chunkSeq = 0, lastSignature = None, consecutiveDuplicates = 0,
            duplicateThreshold = Fin (1 / 10000), onChunkMeta_set = True\<rparr>"
  have sig: "computeSignature [Fin 1] = \<lparr>rms = Fin 1, peak = Fin 1, mean = Fin 1\<rparr>"
    by (simp add: computeSignature_def)
  have ns: "\<not> isSilent (computeSignature [Fin 1])"
    by (simp add: sig isSilent_def strict_eq_def)
  have nd: "\<not> isDuplicate ?s (computeSignature [Fin 1]) \<or> 5 \<le> consecutiveDuplicates ?s"
    by (simp add: isDuplicate_def)
  from process_chunk_send [OF ns nd, of "Fin 0"] obtain wav where
    run: "process_chunk ?s [Fin 1] (Fin 0) =
       (?s\<lparr>chunkSeq := chunkSeq ?s + 1, consecutiveDuplicates := 0,
            lastSignature := Some (computeSignature [Fin 1])\<rparr>,
        (if onChunkMeta_set ?s
         then [OnChunkMeta (with_flags
                 (buildMeta (chunkSeq ?s + 1) (length [Fin 1]) (computeSignature [Fin 1]) (Fin 0))
                 (isDuplicate ?s (computeSignature [Fin 1])) True)]
         else []) @ [OnChunk wav],
        None)"
    by blast
  from approxBytes_is_wav_length [of "[Fin 1]" 1 "computeSignature [Fin 1]" "Fin 0" ?s "[Fin 1]"]
  obtain wav' where w': "length wav' = 48"
    "\<forall>bytes. OnChunk bytes \<in> set (fst (snd (process_chunk ?s [Fin 1] (Fin 0)))) \<longrightarrow> bytes = wav'"
    by (auto simp: buildMeta_def)
  have "OnChunk wav \<in> set (fst (snd (process_chunk ?s [Fin 1] (Fin 0))))"
    by (simp add: run)
  with w' have "length wav = 48" by blast
  then show ?thesis
    by (intro conjI exI [of _ wav])
      (simp_all add: run sig with_flags_def buildMeta_def targetSr_def isDuplicate_def)
qed

subsection \<open>Duplicates\<close>

lemma isDuplicate_quiet:
  assumes "lastSignature this = Some prev"
    and "rms signature < Fin (1 / 100)" and "rms prev < Fin (1 / 100)"
  shows "\<not> isDuplicate this signature"
  using assms by (simp add: isDuplicate_def Let_def)

lemma isDuplicate_within:
  assumes "lastSignature this = Some prev"
    and "Math_abs (rms signature - rms prev) \<le> duplicateThreshold this"
    and "Math_abs (peak signature - peak prev) \<le> duplicateThreshold this"
    and "Math_abs (mean signature - mean prev) \<le> duplicateThreshold this"
    and "\<not> (rms signature < Fin (1 / 100) \<and> rms prev < Fin (1 / 100))"
  shows "isDuplicate this signature"
  using assms by (auto simp: isDuplicate_def Let_def)

lemma isDuplicate_same:
  assumes "lastSignature this = Some \<lparr>rms = Fin r, peak = Fin p, mean = Fin m\<rparr>"
    and "1 / 100 \<le> r" and "duplicateThreshold this = Fin thr" and "0 \<le> thr"
  shows "isDuplicate this \<lparr>rms = Fin r, peak = Fin p, mean = Fin m\<rparr>"
  using assms by (simp add: isDuplicate_def Let_def minus_num_def)

lemma not_isSilent_loud: "0 < r \<Longrightarrow> \<not> isSilent \<lparr>rms = Fin r, peak = p, mean = m\<rparr>"
  by (simp add: isSilent_def strict_eq_def)

lemma process_chunks_skip:
  assumes "\<not> isSilent (computeSignature chunk)"
    and "isDuplicate this (computeSignature chunk)"
    and "consecutiveDuplicates this < 5"
  shows "process_chunks this ((chunk, now) # rest) =
     (let this' = this\<lparr>chunkSeq := chunkSeq this + 1,
                       consecutiveDuplicates := consecutiveDuplicates this + 1,
                       lastSignature := Some (computeSignature chunk)\<rparr>
      in (fst (process_chunks this' rest),
          call_onChunkMeta this (with_flags
            (buildMeta (chunkSeq this + 1) (length chunk) (computeSignature chunk) now)
            True False)
          @ snd (process_chunks this' rest)))"
  by (simp add: process_chunk_skip [OF assms] call_onChunkMeta_def split_beta Let_def)

lemma six_identical_windows:
  assumes sig: "computeSignature chunk = \<lparr>rms = Fin r, peak = Fin p, mean = Fin m\<rparr>"
    and loud: "1 / 100 \<le> r"
    and thr: "duplicateThreshold this = Fin thr" "0 \<le> thr"
    and prev: "lastSignature this = Some (computeSignature chunk)"
    and zero: "consecutiveDuplicates this = 0"
  shows "\<exists>wav. encodeWavFloat32Mono chunk targetSr = Inr wav \<and>
     process_chunks this (replicate 6 (chunk, now)) =
       (this\<lparr>chunkSeq := chunkSeq this + 6, consecutiveDuplicates := 0,
             lastSignature := Some (computeSignature chunk)\<rparr>,
        concat (map (\<lambda>k. call_onChunkMeta this (with_flags
            (buildMeta (chunkSeq this + k) (length chunk) (computeSignature chunk) now)
            True False)) [1, 2, 3, 4, 5])
        @ call_onChunkMeta this (with_flags
            (buildMeta (chunkSeq this + 6) (length chunk) (computeSignature chunk) now)
            True True)
        @ [OnChunk wav])"
proof -
  have ns: "\<not> isSilent (computeSignature chunk)"
    using loud by (simp add: sig not_isSilent_loud)
  have dup: "isDuplicate s (computeSignature chunk)"
    if "lastSignature s = Some (computeSignature chunk)" "duplicateThreshold s = Fin thr" for s
    using that loud thr(2) unfolding sig by (intro isDuplicate_same) simp_all
  define s5 where "s5 = this\<lparr>chunkSeq := chunkSeq this + 5, consecutiveDuplicates := 5,
      lastSignature := Some (computeSignature chunk)\<rparr>"
  have five: "process_chunks this (replicate 5 (chunk, now) @ rest) =
       (fst (process_chunks s5 rest),
        concat (map (\<lambda>k. call_onChunkMeta this (with_flags
            (buildMeta (chunkSeq this + k) (length chunk) (computeSignature chunk) now)
            True False)) [1, 2, 3, 4, 5]) @ snd (process_chunks s5 rest))" for rest
    by (simp add: eval_nat_numeral process_chunks_skip ns dup thr(1) prev zero Let_def
        call_onChunkMeta_def s5_def del: process_chunks.simps)
  have s5: "\<not> isDuplicate s5 (computeSignature chunk) \<or> 5 \<le> consecutiveDuplicates s5"
    by (simp add: s5_def)
  from process_chunk_send [OF ns s5, of now] obtain wav where
    wav: "encodeWavFloat32Mono chunk targetSr = Inr wav"
    and run: "process_chunk s5 chunk now =
     (s5\<lparr>chunkSeq := chunkSeq s5 + 1, consecutiveDuplicates := 0,
         lastSignature := Some (computeSignature chunk)\<rparr>,
      (if onChunkMeta_set s5
       then [OnChunkMeta (with_flags
               (buildMeta (chunkSeq s5 + 1) (length chunk) (computeSignature chunk) now)
               (isDuplicate s5 (computeSignature chunk)) True)]
       else []) @ [OnChunk wav],
      None)"
    by blast
  have d5: "isDuplicate s5 (computeSignature chunk)"
    by (rule dup) (simp_all add: s5_def prev thr(1))
  have "replicate 6 (chunk, now) = replicate 5 (chunk, now) @ [(chunk, now)]"
    by (simp add: eval_nat_numeral)
  then have "process_chunks this (replicate 6 (chunk, now)) =
       (this\<lparr>chunkSeq := chunkSeq this + 6, consecutiveDuplicates := 0,
             lastSignature := Some (computeSignature chunk)\<rparr>,
        concat (map (\<lambda>k. call_onChunkMeta this (with_flags
            (buildMeta (chunkSeq this + k) (length chunk) (computeSignature chunk) now)
            True False)) [1, 2, 3, 4, 5])
        @ call_onChunkMeta this (with_flags
            (buildMeta (chunkSeq this + 6) (length chunk) (computeSignature chunk) now)
            True True)
        @ [OnChunk wav])"
    by (simp add: five run d5 call_onChunkMeta_def) (simp add: s5_def add.commute)
  with wav show ?thesis by blast
qed

text \<open>
  C6. For a window that is not completely silent (the silence branch comes first):
  \<^item> if its signature is within the threshold of the previous one in RMS, peak and mean,
    the two are not both quiet (RMS below 0.01) and fewer than 5 duplicates were skipped
    in a row, it is skipped: metadata with \<open>duplicate = true\<close>, \<open>sent = false\<close>, no
    \<open>onChunk\<close>, the counter goes up by one and \<open>lastSignature\<close> is updated;
  \<^item> a quiet window after a quiet one is never a duplicate for \<open>isDuplicate\<close>, and is
    dispatched with \<open>duplicate = false\<close>;
  \<^item> once 5 duplicates were skipped in a row the window is dispatched whatever its
    signature, and the counter goes back to 0;
  \<^item> so of six windows in a row whose signature is that of the window before them
    (not quiet), five are skipped and the sixth is dispatched, marked duplicate.
\<close>

theorem duplicate_state_machine:
  "(\<not> isSilent (computeSignature chunk) \<longrightarrow> lastSignature this = Some prev \<longrightarrow>
      Math_abs (rms (computeSignature chunk) - rms prev) \<le> duplicateThreshold this \<longrightarrow>
      Math_abs (peak (computeSignature chunk) - peak prev) \<le> duplicateThreshold this \<longrightarrow>
      Math_abs (mean (computeSignature chunk) - mean prev) \<le> duplicateThreshold this \<longrightarrow>
      \<not> (rms (computeSignature chunk) < Fin (1 / 100) \<and> rms prev < Fin (1 / 100)) \<longrightarrow>
      consecutiveDuplicates this < 5 \<longrightarrow>
      process_chunk this chunk now =
        (this\<lparr>chunkSeq := chunkSeq this + 1,
              consecutiveDuplicates := consecutiveDuplicates this + 1,
              lastSignature := Some (computeSignature chunk)\<rparr>,
         (if onChunkMeta_set this
          then [OnChunkMeta (with_flags
                  (buildMeta (chunkSeq this + 1) (length chunk) (computeSignature chunk) now)
                  True False)]
          else []),
         None))
   \<and> (lastSignature this = Some prev \<longrightarrow>
        rms signature < Fin (1 / 100) \<longrightarrow> rms prev < Fin (1 / 100) \<longrightarrow>
        \<not> isDuplicate this signature)
   \<and> (\<not> isSilent (computeSignature chunk) \<longrightarrow> lastSignature this = Some prev \<longrightarrow>
        rms (computeSignature chunk) < Fin (1 / 100) \<longrightarrow> rms prev < Fin (1 / 100) \<longrightarrow>
        (\<exists>wav. encodeWavFloat32Mono chunk targetSr = Inr wav \<and>
           process_chunk this chunk now =
             (this\<lparr>chunkSeq := chunkSeq this + 1, consecutiveDuplicates := 0,
                   lastSignature := Some (computeSignature chunk)\<rparr>,
              (if onChunkMeta_set this
               then [OnChunkMeta (with_flags
                       (buildMeta (chunkSeq this + 1) (length chunk) (computeSignature chunk) now)
                       False True)]
               else []) @ [OnChunk wav],
              None)))
   \<and> (\<not> isSilent (computeSignature chunk) \<longrightarrow> 5 \<le> consecutiveDuplicates this \<longrightarrow>
        (\<exists>wav. encodeWavFloat32Mono chunk targetSr = Inr wav \<and>
           process_chunk this chunk now =
             (this\<lparr>chunkSeq := chunkSeq this + 1, consecutiveDuplicates := 0,
                   lastSignature := Some (computeSignature chunk)\<rparr>,
              (if onChunkMeta_set this
               then [OnChunkMeta (with_flags
                       (buildMeta (chunkSeq this + 1) (length chunk) (computeSignature chunk) now)
                       (isDuplicate this (computeSignature chunk)) True)]
               else []) @ [OnChunk wav],
              None)))
   \<and> (computeSignature chunk = \<lparr>rms = Fin r, peak = Fin p, mean = Fin m\<rparr> \<longrightarrow>
        1 / 100 \<le> r \<longrightarrow> duplicateThreshold this = Fin thr \<longrightarrow> 0 \<le> thr \<longrightarrow>
        lastSignature this = Some (computeSignature chunk) \<longrightarrow>
        consecutiveDuplicates this = 0 \<longrightarrow>
        (\<exists>wav. encodeWavFloat32Mono chunk targetSr = Inr wav \<and>
           process_chunks this (replicate 6 (chunk, now)) =
             (this\<lparr>chunkSeq := chunkSeq this + 6, consecutiveDuplicates := 0,
                   lastSignature := Some (computeSignature chunk)\<rparr>,
              concat (map (\<lambda>k. call_onChunkMeta this (with_flags
                  (buildMeta (chunkSeq this + k) (length chunk) (computeSignature chunk) now)
                  True False)) [1, 2, 3, 4, 5])
              @ call_onChunkMeta this (with_flags
                  (buildMeta (chunkSeq this + 6) (length chunk) (computeSignature chunk) now)
                  True True)
              @ [OnChunk wav])))"
proof (intro conjI impI)
  assume "\<not> isSilent (computeSignature chunk)" "lastSignature this = Some prev"
    "Math_abs (rms (computeSignature chunk) - rms prev) \<le> duplicateThreshold this"
    "Math_abs (peak (computeSignature chunk) - peak prev) \<le> duplicateThreshold this"
    "Math_abs (mean (computeSignature chunk) - mean prev) \<le> duplicateThreshold this"
    "\<not> (rms (computeSignature chunk) < Fin (1 / 100) \<and> rms prev < Fin (1 / 100))"
    "consecutiveDuplicates this < 5"
  then show "process_chunk this chunk now =
        (this\<lparr>chunkSeq := chunkSeq this + 1,
              consecutiveDuplicates := consecutiveDuplicates this + 1,
              lastSignature := Some (computeSignature chunk)\<rparr>,
         (if onChunkMeta_set this
          then [OnChunkMeta (with_flags
                  (buildMeta (chunkSeq this + 1) (length chunk) (computeSignature chunk) now)
                  True False)]
          else []),
         None)"
    by (intro process_chunk_skip isDuplicate_within)
next
  assume "lastSignature this = Some prev" "rms signature < Fin (1 / 100)"
    "rms prev < Fin (1 / 100)"
  then show "\<not> isDuplicate this signature"
    by (rule isDuplicate_quiet)
next
  assume ns: "\<not> isSilent (computeSignature chunk)"
    and q: "lastSignature this = Some prev" "rms (computeSignature chunk) < Fin (1 / 100)"
      "rms prev < Fin (1 / 100)"
  have nd: "\<not> isDuplicate this (computeSignature chunk)"
    using q by (rule isDuplicate_quiet)
  then have "\<not> isDuplicate this (computeSignature chunk) \<or> 5 \<le> consecutiveDuplicates this"
    by simp
  from process_chunk_send [OF ns this, of now] nd
  show "\<exists>wav. encodeWavFloat32Mono chunk targetSr = Inr wav \<and>
           process_chunk this chunk now =
             (this\<lparr>chunkSeq := chunkSeq this + 1, consecutiveDuplicates := 0,
                   lastSignature := Some (computeSignature chunk)\<rparr>,
              (if onChunkMeta_set this
               then [OnChunkMeta (with_flags
                       (buildMeta (chunkSeq this + 1) (length chunk) (computeSignature chunk) now)
                       False True)]
               else []) @ [OnChunk wav],
              None)"
    by auto
next
  assume ns: "\<not> isSilent (computeSignature chunk)" and "5 \<le> consecutiveDuplicates this"
  then have "\<not> isDuplicate this (computeSignature chunk) \<or> 5 \<le> consecutiveDuplicates this"
    by simp
  from process_chunk_send [OF ns this, of now]
  show "\<exists>wav. encodeWavFloat32Mono chunk targetSr = Inr wav \<and>
           process_chunk this chunk now =
             (this\<lparr>chunkSeq := chunkSeq this + 1, consecutiveDuplicates := 0,
                   lastSignature := Some (computeSignature chunk)\<rparr>,
              (if onChunkMeta_set this
               then [OnChunkMeta (with_flags
                       (buildMeta (chunkSeq this + 1) (length chunk) (computeSignature chunk) now)
                       (isDuplicate this (computeSignature chunk)) True)]
               else []) @ [OnChunk wav],
              None)"
    by blast
next
  assume "computeSignature chunk = \<lparr>rms = Fin r, peak = Fin p, mean = Fin m\<rparr>"
    "1 / 100 \<le> r" "duplicateThreshold this = Fin thr" "0 \<le> thr"
    "lastSignature this = Some (computeSignature chunk)" "consecutiveDuplicates this = 0"
  then show "\<exists>wav. encodeWavFloat32Mono chunk targetSr = Inr wav \<and>
           process_chunks this (replicate 6 (chunk, now)) =
             (this\<lparr>chunkSeq := chunkSeq this + 6, consecutiveDuplicates := 0,
                   lastSignature := Some (computeSignature chunk)\<rparr>,
              concat (map (\<lambda>k. call_onChunkMeta this (with_flags
                  (buildMeta (chunkSeq this + k) (length chunk) (computeSignature chunk) now)
                  True False)) [1, 2, 3, 4, 5])
              @ call_onChunkMeta this (with_flags
                  (buildMeta (chunkSeq this + 6) (length chunk) (computeSignature chunk) now)
                  True True)
              @ [OnChunk wav])"
    by (rule six_identical_windows)
qed

lemma sqrt_millionth: "sqrt (1 / 1000000) = 1 / 1000"
  by (rule real_sqrt_unique) (simp_all add: power2_eq_square)

theorem duplicate_state_machine_witness:
  "process_chunk
     \<lparr>actualSr = Fin 16000, chunkSeq = 1,
      lastSignature = Some \<lparr>rms = Fin 1, peak = Fin 1, mean = Fin 1\<rparr>,
      consecutiveDuplicates = 0, duplicateThreshold = Fin (1 / 10000), onChunkMeta_set = True\<rparr>
     [Fin 1] (Fin 0)
   = (\<lparr>actualSr = Fin 16000, chunkSeq = 2,
       lastSignature = Some \<lparr>rms = Fin 1, peak = Fin 1, mean = Fin 1\<rparr>,
       consecutiveDuplicates = 1, duplicateThreshold = Fin (1 / 10000), onChunkMeta_set = True\<rparr>,
      [OnChunkMeta \<lparr>rms = Fin 1, peak = Fin 1, mean = Fin 1, seq = 2, sampleCount = 1,
          durationSec = Fin (1 / 16000), approxBytes = 48, timestamp = Fin 0,
          duplicate = True, sent = False\<rparr>],
      None)
   \<and> (\<exists>wav. process_chunk
       \<lparr>actualSr = Fin 16000, chunkSeq = 1,
        lastSignature = Some \<lparr>rms = Fin (1 / 1000), peak = Fin (1 / 1000), mean = Fin (1 / 1000)\<rparr>,
        consecutiveDuplicates = 0, duplicateThreshold = Fin (1 / 10000), onChunkMeta_set = True\<rparr>
       [Fin (1 / 1000)] (Fin 0)
     = (\<lparr>actualSr = Fin 16000, chunkSeq = 2,
         lastSignature = Some \<lparr>rms = Fin (1 / 1000), peak = Fin (1 / 1000), mean = Fin (1 / 1000)\<rparr>,
         consecutiveDuplicates = 0, duplicateThreshold = Fin (1 / 10000), onChunkMeta_set = True\<rparr>,
        [OnChunkMeta \<lparr>rms = Fin (1 / 1000), peak = Fin (1 / 1000), mean = Fin (1 / 1000),
            seq = 2, sampleCount = 1,
            durationSec = Fin (1 / 16000), approxBytes = 48, timestamp = Fin 0,
            duplicate = False, sent = True\<rparr>, OnChunk wav],
        None))
   \<and> (\<exists>wav. process_chunk
       \<lparr>actualSr = Fin 16000, chunkSeq = 1,
        lastSignature = Some \<lparr>rms = Fin 1, peak = Fin 1, mean = Fin 1\<rparr>,
        consecutiveDuplicates = 5, duplicateThreshold = Fin (1 / 10000), onChunkMeta_set = True\<rparr>
       [Fin 1] (Fin 0)
     = (\<lparr>actualSr = Fin 16000, chunkSeq = 2,
         lastSignature = Some \<lparr>rms = Fin 1, peak = Fin 1, mean = Fin 1\<rparr>,
         consecutiveDuplicates = 0, duplicateThreshold = Fin (1 / 10000), onChunkMeta_set = True\<rparr>,
        [OnChunkMeta \<lparr>rms = Fin 1, peak = Fin 1, mean = Fin 1, seq = 2, sampleCount = 1,
            durationSec = Fin (1 / 16000), approxBytes = 48, timestamp = Fin 0,
            duplicate = True, sent = True\<rparr>, OnChunk wav],
        None))
   \<and> (\<exists>wav. process_chunks
       \<lparr>actualSr = Fin 16000, chunkSeq = 1,
        lastSignature = Some \<lparr>rms = Fin 1, peak = Fin 1, mean = Fin 1\<rparr>,
        consecutiveDuplicates = 0, duplicateThreshold = Fin (1 / 10000), onChunkMeta_set = True\<rparr>
       (replicate 6 ([Fin 1], Fin 0))
     = (\<lparr>actualSr = Fin 16000, chunkSeq = 7,
         lastSignature = Some \<lparr>rms = Fin 1, peak = Fin 1, mean = Fin 1\<rparr>,
         consecutiveDuplicates = 0, duplicateThreshold = Fin (1 / 10000), onChunkMeta_set = True\<rparr>,
        map (\<lambda>k. OnChunkMeta \<lparr>rms = Fin 1, peak = Fin 1, mean = Fin 1, seq = k, sampleCount = 1,
            durationSec = Fin (1 / 16000), approxBytes = 48, timestamp = Fin 0,
            duplicate = True, sent = False\<rparr>) [2, 3, 4, 5, 6]
        @ [OnChunkMeta \<lparr>rms = Fin 1, peak = Fin 1, mean = Fin 1, seq = 7, sampleCount = 1,
            durationSec = Fin (1 / 16000), approxBytes = 48, timestamp = Fin 0,
            duplicate = True, sent = True\<rparr>, OnChunk wav]))"
proof -
  let ?sg = "\<lparr>rms = Fin 1, peak = Fin 1, mean = Fin 1\<rparr>"
  let ?q = "\<lparr>rms = Fin (1 / 1000), peak = Fin (1 / 1000), mean = Fin (1 / 1000)\<rparr>"
  let ?s = "\<lambda>Sg k. \<lparr>actualSr = Fin 16000, chunkSeq = 1, lastSignature = Some Sg,
      consecutiveDuplicates = k, duplicateThreshold = Fin (1 / 10000), onChunkMeta_set = True\<rparr>"
  have sig: "computeSignature [Fin 1] = ?sg"
    by (simp add: computeSignature_def)
  have sigq: "computeSignature [Fin (1 / 1000)] = ?q"
    by (simp add: computeSignature_def sqrt_millionth)
  have ns: "\<not> isSilent ?sg" "\<not> isSilent ?q"
    by (simp_all add: isSilent_def strict_eq_def)
  have d: "isDuplicate (?s ?sg k) ?sg" for k
    by (simp add: isDuplicate_def minus_num_def)
  note meta = with_flags_def buildMeta_def targetSr_def call_onChunkMeta_def
  have a: "process_chunk (?s ?sg 0) [Fin 1] (Fin 0)
      = (\<lparr>actualSr = Fin 16000, chunkSeq = 2, lastSignature = Some ?sg,
           consecutiveDuplicates = 1, duplicateThreshold = Fin (1 / 10000), onChunkMeta_set = True\<rparr>,
         [OnChunkMeta \<lparr>rms = Fin 1, peak = Fin 1, mean = Fin 1, seq = 2, sampleCount = 1,
            durationSec = Fin (1 / 16000), approxBytes = 48, timestamp = Fin 0,
            duplicate = True, sent = False\<rparr>],
         None)"
    using duplicate_state_machine [where chunk = "[Fin 1]" and this = "?s ?sg 0"
        and prev = ?sg and now = "Fin 0" and signature = ?sg and r = 1 and p = 1 and m = 1
        and thr = "1 / 10000"]
    by (simp add: sig ns minus_num_def meta)
  have b: "\<exists>wav. process_chunk (?s ?q 0) [Fin (1 / 1000)] (Fin 0)
      = (\<lparr>actualSr = Fin 16000, chunkSeq = 2, lastSignature = Some ?q,
           consecutiveDuplicates = 0, duplicateThreshold = Fin (1 / 10000), onChunkMeta_set = True\<rparr>,
         [OnChunkMeta \<lparr>rms = Fin (1 / 1000), peak = Fin (1 / 1000), mean = Fin (1 / 1000),
            seq = 2, sampleCount = 1,
            durationSec = Fin (1 / 16000), approxBytes = 48, timestamp = Fin 0,
            duplicate = False, sent = True\<rparr>, OnChunk wav],
         None)"
    using duplicate_state_machine [where chunk = "[Fin (1 / 1000)]" and this = "?s ?q 0"
        and prev = ?q and now = "Fin 0" and signature = ?q and r = 1 and p = 1 and m = 1
        and thr = "1 / 10000"]
    by (auto simp: sigq ns meta)
  have c: "\<exists>wav. process_chunk (?s ?sg 5) [Fin 1] (Fin 0)
      = (\<lparr>actualSr = Fin 16000, chunkSeq = 2, lastSignature = Some ?sg,
           consecutiveDuplicates = 0, duplicateThreshold = Fin (1 / 10000), onChunkMeta_set = True\<rparr>,
         [OnChunkMeta \<lparr>rms = Fin 1, peak = Fin 1, mean = Fin 1, seq = 2, sampleCount = 1,
            durationSec = Fin (1 / 16000), approxBytes = 48, timestamp = Fin 0,
            duplicate = True, sent = True\<rparr>, OnChunk wav],
         None)"
    using duplicate_state_machine [where chunk = "[Fin 1]" and this = "?s ?sg 5"
        and prev = ?sg and now = "Fin 0" and signature = ?sg and r = 1 and p = 1 and m = 1
        and thr = "1 / 10000"]
    by (auto simp: sig ns meta isDuplicate_def minus_num_def)
  have e: "\<exists>wav. process_chunks (?s ?sg 0) (replicate 6 ([Fin 1], Fin 0))
      = (\<lparr>actualSr = Fin 16000, chunkSeq = 7, lastSignature = Some ?sg,
           consecutiveDuplicates = 0, duplicateThreshold = Fin (1 / 10000), onChunkMeta_set = True\<rparr>,
         map (\<lambda>k. OnChunkMeta \<lparr>rms = Fin 1, peak = Fin 1, mean = Fin 1, seq = k, sampleCount = 1,
            durationSec = Fin (1 / 16000), approxBytes = 48, timestamp = Fin 0,
            duplicate = True, sent = False\<rparr>) [2, 3, 4, 5, 6]
         @ [OnChunkMeta \<lparr>rms = Fin 1, peak = Fin 1, mean = Fin 1, seq = 7, sampleCount = 1,
            durationSec = Fin (1 / 16000), approxBytes = 48, timestamp = Fin 0,
            duplicate = True, sent = True\<rparr>, OnChunk wav])"
    using duplicate_state_machine [where chunk = "[Fin 1]" and this = "?s ?sg 0"
        and prev = ?sg and now = "Fin 0" and signature = ?sg and r = 1 and p = 1 and m = 1
        and thr = "1 / 10000"]
    by (auto simp: sig meta simp del: process_chunks.simps)
  from a b c e show ?thesis by blast
qed

subsection \<open>Resampling, as a function of the input\<close>






section \<open>Properties of the fusion\<close>









end
